theory Spec2Isabelle
  imports Complex_Main
begin

section \<open>CarGo backend: bookings, availability, pricing and payment\<close>

text \<open>
  A shallow embedding of \<^verbatim>\<open>routes/bookings.js\<close>, \<^verbatim>\<open>models/Booking.js\<close>, the
  availability route of \<^verbatim>\<open>routes/cars.js\<close> and the booking-status route of
  \<^verbatim>\<open>routes/admin.js\<close>.

  Conventions of the embedding:
  \<^item> a JavaScript \<^verbatim>\<open>Date\<close> is its time value, an \<open>int\<close> of milliseconds since the epoch;
    \<open>None\<close> is \<^verbatim>\<open>Invalid Date\<close> (time value \<^verbatim>\<open>NaN\<close>);
  \<^item> a \<^verbatim>\<open>Number\<close> is a rational and \<open>None\<close> is \<^verbatim>\<open>NaN\<close>; arithmetic is taken as exact;
  \<^item> a string is a list of code units below 256;
  \<^item> the local time zone is the function \<open>localTZA\<close> of the runtime (the \<^verbatim>\<open>LocalTZA\<close> of
    ECMAScript): the offset of local time from UTC in milliseconds, at an instant given
    in UTC (flag \<open>True\<close>) or in local time (flag \<open>False\<close>), so that it may change with
    daylight saving;
  \<^item> the database is a record of collections, passed in and returned by every route;
  \<^item> what the runtime and the libraries supply (clock, random numbers, HMAC, the
    validator for ISO 8601, the payment provider, date formats other than the two
    ECMAScript forms modelled here, the validators that the persistence library derives
    from the schema) is a field of the record \<open>env\<close>;
  \<^item> a response is \<open>Inl\<close> of an error (status code and message) or \<open>Inr\<close> of the payload.
\<close>

subsection \<open>Time values\<close>

abbreviation msPerSecond :: int where "msPerSecond \<equiv> 1000"
abbreviation msPerMinute :: int where "msPerMinute \<equiv> 1000 * 60"
abbreviation msPerHour :: int where "msPerHour \<equiv> 1000 * 60 * 60"
abbreviation msPerDay :: int where "msPerDay \<equiv> 1000 * 60 * 60 * 24"

definition digit :: "char \<Rightarrow> int option" where
  "digit c = (let n = (of_char c :: nat) in
     if 48 \<le> n \<and> n \<le> 57 then Some (int n - 48) else None)"

fun digitsFrom :: "int \<Rightarrow> string \<Rightarrow> int option" where
  "digitsFrom acc [] = Some acc"
| "digitsFrom acc (c # cs) =
     (case digit c of None \<Rightarrow> None | Some d \<Rightarrow> digitsFrom (10 * acc + d) cs)"

definition digits :: "string \<Rightarrow> int option" where
  "digits s = (if s = [] then None else digitsFrom 0 s)"

definition isLeapYear :: "int \<Rightarrow> bool" where
  "isLeapYear y = (y mod 4 = 0 \<and> (y mod 100 \<noteq> 0 \<or> y mod 400 = 0))"

definition daysInMonth :: "int \<Rightarrow> int \<Rightarrow> int" where
  "daysInMonth y m =
     (if m = 2 then (if isLeapYear y then 29 else 28)
      else if m = 4 \<or> m = 6 \<or> m = 9 \<or> m = 11 then 30 else 31)"

text \<open>Day number of a calendar date of the proleptic Gregorian calendar, day 0 being
  1970-01-01 (the \<^verbatim>\<open>MakeDay\<close> of ECMAScript).\<close>

definition dayFromCivil :: "int \<Rightarrow> int \<Rightarrow> int \<Rightarrow> int" where
  "dayFromCivil y m d =
     (let y' = (if m \<le> 2 then y - 1 else y);
          era = y' div 400;
          yoe = y' - era * 400;
          mp = (m + 9) mod 12;
          doy = (153 * mp + 2) div 5 + d - 1;
          doe = yoe * 365 + yoe div 4 - yoe div 100 + doy
      in era * 146097 + doe - 719468)"

text \<open>The date-only form \<^verbatim>\<open>YYYY-MM-DD\<close>: the day number of a valid calendar date.\<close>

definition parseDateOnly :: "string \<Rightarrow> int option" where
  "parseDateOnly s =
     (if length s = 10 \<and> s ! 4 = CHR ''-'' \<and> s ! 7 = CHR ''-'' then
        (case (digits (take 4 s), digits (take 2 (drop 5 s)), digits (drop 8 s)) of
           (Some y, Some m, Some d) \<Rightarrow>
             if 1 \<le> m \<and> m \<le> 12 \<and> 1 \<le> d \<and> d \<le> daysInMonth y m
             then Some (dayFromCivil y m d) else None
         | _ \<Rightarrow> None)
      else None)"

text \<open>The time of day \<^verbatim>\<open>HH:mm\<close>, \<^verbatim>\<open>HH:mm:ss\<close> or \<^verbatim>\<open>HH:mm:ss.sss\<close>, in milliseconds after
  midnight.\<close>

definition parseTimeOfDay :: "string \<Rightarrow> int option" where
  "parseTimeOfDay s =
     (if (length s = 5 \<or> length s = 8 \<or> length s = 12) \<and> s ! 2 = CHR '':''
         \<and> (if length s = 5 then True else s ! 5 = CHR '':'')
         \<and> (if length s = 12 then s ! 8 = CHR ''.'' else True) then
        (case (digits (take 2 s), digits (take 2 (drop 3 s)),
               if length s = 5 then Some 0 else digits (take 2 (drop 6 s)),
               if length s = 12 then digits (drop 9 s) else Some 0) of
           (Some h, Some mi, Some sec, Some ms) \<Rightarrow>
             if h \<le> 23 \<and> mi \<le> 59 \<and> sec \<le> 59
             then Some (h * msPerHour + mi * msPerMinute + sec * msPerSecond + ms) else None
         | _ \<Rightarrow> None)
      else None)"

text \<open>The date-time forms \<^verbatim>\<open>YYYY-MM-DDTHH:mm\<close>, \<^verbatim>\<open>YYYY-MM-DDTHH:mm:ss\<close> and
  \<^verbatim>\<open>YYYY-MM-DDTHH:mm:ss.sss\<close> without a zone: day number and time of day.\<close>

definition parseDateTime :: "string \<Rightarrow> (int \<times> int) option" where
  "parseDateTime s =
     (if (length s = 16 \<or> length s = 19 \<or> length s = 23) \<and> s ! 10 = CHR ''T'' then
        (case (parseDateOnly (take 10 s), parseTimeOfDay (drop 11 s)) of
           (Some day, Some t) \<Rightarrow> Some (day, t)
         | _ \<Rightarrow> None)
      else None)"

subsection \<open>Data model\<close>

type_synonym objectId = nat

datatype bookingStatus = Pending | Confirmed | Cancelled | Completed

datatype paymentStatus = PaymentPending | Paid | Failed | Refunded

text \<open>The Car document of the Car schema, with the fields that the routes read and write.\<close>

record car =
  title :: string
  pricePerDay :: rat
  pricePerHour :: rat
  isAvailable :: bool
  totalBookings :: nat

text \<open>The Booking document of \<^verbatim>\<open>models/Booking.js\<close>; \<open>docId\<close> is its \<^verbatim>\<open>_id\<close>.\<close>

record booking =
  docId :: objectId
  user :: objectId
  car :: objectId
  startDate :: int
  endDate :: int
  startTime :: string
  endTime :: string
  totalAmount :: rat
  bookingType :: string
  duration :: int
  status :: bookingStatus
  paymentStatus :: paymentStatus
  razorpayPaymentId :: "string option"
  razorpayOrderId :: "string option"
  pickupLocation :: string
  dropoffLocation :: string
  specialRequests :: "string option"
  bookingId :: "string option"

text \<open>The authenticated identity that the \<^verbatim>\<open>auth\<close> middleware puts on the request.\<close>

record identity =
  userId :: objectId
  userName :: string
  userEmail :: string
  userPhone :: string

text \<open>The booking form as the client sends it: every field a string.\<close>

record bookingForm =
  carId :: objectId
  formStartDate :: string
  formEndDate :: string
  formStartTime :: string
  formEndTime :: string
  formBookingType :: string
  formPickupLocation :: string
  formDropoffLocation :: string
  formSpecialRequests :: "string option"

record verifyRequest =
  razorpay_order_id :: string
  razorpay_payment_id :: string
  razorpay_signature :: string
  bookingDetails :: "bookingForm option"

text \<open>The options of \<^verbatim>\<open>razorpay.orders.create\<close> and the order it answers with.\<close>

record orderOptions =
  amount :: "rat option"
  currency :: string
  receipt :: string
  payment_capture :: nat

record paymentOrder =
  orderId :: string
  orderCurrency :: string
  orderAmount :: "rat option"

record orderReply =
  replyOrderId :: string
  replyCurrency :: string
  replyAmount :: "rat option"
  replyKeyId :: string
  replyCarTitle :: string
  replyUserName :: string
  replyUserEmail :: string
  replyUserPhone :: string

record env =
  localTZA :: "int \<Rightarrow> bool \<Rightarrow> int"
  dateNow :: nat
  mathRandomBase36 :: string
  keySecret :: string
  keyId :: string
  createHmac :: "string \<Rightarrow> string \<Rightarrow> string \<Rightarrow> string \<Rightarrow> string"
  isISO8601 :: "string \<Rightarrow> bool"
  ordersCreate :: "orderOptions \<Rightarrow> paymentOrder option"
  otherDateFormats :: "string \<Rightarrow> int option"
  schemaValid :: "booking \<Rightarrow> bool"

text \<open>The collections, and the orders requested from the payment provider so far.\<close>

record world =
  cars :: "objectId \<rightharpoonup> car"
  bookings :: "booking list"
  paymentOrders :: "orderOptions list"

datatype error = Error nat string | ValidationErrors "string list"

subsection \<open>The Date object\<close>

text \<open>\<^verbatim>\<open>LocalTime(t)\<close> and \<^verbatim>\<open>UTC(t)\<close> of ECMAScript: from an instant to the local time
  value and back.\<close>

definition localTime :: "env \<Rightarrow> int \<Rightarrow> int" where
  "localTime e t = t + localTZA e t True"

definition utcTime :: "env \<Rightarrow> int \<Rightarrow> int" where
  "utcTime e t = t - localTZA e t False"

text \<open>\<^verbatim>\<open>new Date(s)\<close> for a string: a date-only form is UTC midnight, a date-time form
  without a zone is local time, anything else is left to the runtime.\<close>

definition newDate :: "env \<Rightarrow> string \<Rightarrow> int option" where
  "newDate e s =
     (case parseDateOnly s of
        Some day \<Rightarrow> Some (day * msPerDay)
      | None \<Rightarrow>
          (case parseDateTime s of
             Some (day, t) \<Rightarrow> Some (utcTime e (day * msPerDay + t))
           | None \<Rightarrow> otherDateFormats e s))"

text \<open>\<^verbatim>\<open>d.setHours(h, m, s, ms)\<close>: the same local day, the time of day replaced.\<close>

definition setHours :: "env \<Rightarrow> int \<Rightarrow> int \<Rightarrow> int \<Rightarrow> int \<Rightarrow> int \<Rightarrow> int" where
  "setHours e t h m s ms =
     utcTime e ((localTime e t div msPerDay) * msPerDay
                  + h * msPerHour + m * msPerMinute + s * msPerSecond + ms)"

text \<open>\<^verbatim>\<open>Math.ceil(a / b)\<close> on two integral Numbers.\<close>

definition ceilQuotient :: "int \<Rightarrow> int \<Rightarrow> int" where
  "ceilQuotient a b = \<lceil>rat_of_int a / rat_of_int b\<rceil>"

subsection \<open>Pricing: calculateBookingDetails\<close>

text \<open>The result is \<open>None\<close> when a date is invalid: both \<^verbatim>\<open>duration\<close> and
  \<^verbatim>\<open>totalAmount\<close> are then \<^verbatim>\<open>NaN\<close>.\<close>

definition calculateBookingDetails ::
  "env \<Rightarrow> car \<Rightarrow> string \<Rightarrow> string \<Rightarrow> string \<Rightarrow> string \<Rightarrow> string \<Rightarrow> (int \<times> rat) option" where
  "calculateBookingDetails e c sd ed st et bt =
     (if bt = ''daily'' then
        (case (newDate e sd, newDate e ed) of
           (Some start, Some end') \<Rightarrow>
             (let start' = setHours e start 0 0 0 0;
                  end'' = setHours e end' 23 59 59 999;
                  dur = ceilQuotient (end'' - start') (1000 * 60 * 60 * 24)
              in Some (dur, of_int dur * pricePerDay c))
         | _ \<Rightarrow> None)
      else
        (case (newDate e (sd @ ''T'' @ st), newDate e (ed @ ''T'' @ et)) of
           (Some startDateTime, Some endDateTime) \<Rightarrow>
             (let dur = ceilQuotient (endDateTime - startDateTime) (1000 * 60 * 60)
              in Some (dur, of_int dur * pricePerHour c))
         | _ \<Rightarrow> None))"

subsection \<open>Strings of numbers and random suffixes\<close>

definition digitChar :: "nat \<Rightarrow> char" where
  "digitChar n = ''0123456789'' ! n"

fun showNat :: "nat \<Rightarrow> string" where
  "showNat n = (if n < 10 then [digitChar n] else showNat (n div 10) @ [digitChar (n mod 10)])"

declare showNat.simps [simp del]

definition toUpperCase :: "char \<Rightarrow> char" where
  "toUpperCase c =
     (case map_of (zip ''abcdefghijklmnopqrstuvwxyz'' ''ABCDEFGHIJKLMNOPQRSTUVWXYZ'') c of
        Some u \<Rightarrow> u
      | None \<Rightarrow> c)"

text \<open>\<^verbatim>\<open>Math.random().toString(36).substr(2, 5).toUpperCase()\<close>\<close>

definition randomSuffix :: "env \<Rightarrow> string" where
  "randomSuffix e = map toUpperCase (take 5 (drop 2 (mathRandomBase36 e)))"

subsection \<open>Request validation\<close>

definition isDigitChar :: "char \<Rightarrow> bool" where
  "isDigitChar c = (digit c \<noteq> None)"

text \<open>The pattern \<^verbatim>\<open>/^([0-1]?[0-9]|2[0-3]):[0-5][0-9]$/\<close> of the two time fields.\<close>

definition matchesTime :: "string \<Rightarrow> bool" where
  "matchesTime s =
     (if length s = 5 then
        (((s ! 0 = CHR ''0'' \<or> s ! 0 = CHR ''1'') \<and> isDigitChar (s ! 1))
          \<or> (s ! 0 = CHR ''2'' \<and> s ! 1 \<in> set ''0123''))
        \<and> s ! 2 = CHR '':'' \<and> s ! 3 \<in> set ''012345'' \<and> isDigitChar (s ! 4)
      else if length s = 4 then
        isDigitChar (s ! 0) \<and> s ! 1 = CHR '':'' \<and> s ! 2 \<in> set ''012345'' \<and> isDigitChar (s ! 3)
      else False)"

text \<open>The characters that \<^verbatim>\<open>trim()\<close> strips, among the code units below 256: the blanks
  of ASCII and the no-break space.\<close>

definition isWhitespace :: "char \<Rightarrow> bool" where
  "isWhitespace c =
     (c \<in> set [CHR '' '', CHR 0x09, CHR 0x0A, CHR 0x0B, CHR 0x0C, CHR 0x0D, CHR 0xA0])"

text \<open>\<^verbatim>\<open>trim().isLength({ min: 1 })\<close>\<close>

definition nonBlank :: "string \<Rightarrow> bool" where
  "nonBlank s = list_ex (\<lambda>c. \<not> isWhitespace c) s"

definition check :: "bool \<Rightarrow> string \<Rightarrow> string list" where
  "check ok msg = (if ok then [] else [msg])"

text \<open>The validation chain of \<^verbatim>\<open>POST /create-razorpay-order\<close>. Object ids are well-formed
  by their type, so \<^verbatim>\<open>isMongoId\<close> has no counterpart.\<close>

definition validateOrderForm :: "env \<Rightarrow> bookingForm \<Rightarrow> string list" where
  "validateOrderForm e f =
     check (isISO8601 e (formStartDate f)) ''Start date must be a valid date''
     @ check (isISO8601 e (formEndDate f)) ''End date must be a valid date''
     @ check (matchesTime (formStartTime f)) ''Start time must be in HH:MM format''
     @ check (matchesTime (formEndTime f)) ''End time must be in HH:MM format''
     @ check (formBookingType f = ''hourly'' \<or> formBookingType f = ''daily'')
         ''Booking type must be hourly or daily''
     @ check (nonBlank (formPickupLocation f)) ''Pickup location is required''
     @ check (nonBlank (formDropoffLocation f)) ''Dropoff location is required''"

definition validateAvailabilityForm :: "env \<Rightarrow> string \<Rightarrow> string \<Rightarrow> string list" where
  "validateAvailabilityForm e sd ed =
     check (isISO8601 e sd) ''Start date must be a valid date''
     @ check (isISO8601 e ed) ''End date must be a valid date''"

subsection \<open>The Booking model: hooks and writes\<close>

datatype saveError = ValidationFailed | HookError string | DuplicateKey

text \<open>First \<^verbatim>\<open>pre('save')\<close> hook: a booking without a (non-empty) \<^verbatim>\<open>bookingId\<close> gets one.\<close>

definition hasBookingId :: "booking \<Rightarrow> bool" where
  "hasBookingId b = (case bookingId b of None \<Rightarrow> False | Some s \<Rightarrow> s \<noteq> [])"

definition generateBookingId :: "env \<Rightarrow> string" where
  "generateBookingId e = ''CG'' @ showNat (dateNow e) @ randomSuffix e"

definition preSaveBookingId :: "env \<Rightarrow> booking \<Rightarrow> booking" where
  "preSaveBookingId e b =
     (if \<not> hasBookingId b then b\<lparr>bookingId := Some (generateBookingId e)\<rparr> else b)"

text \<open>Second \<^verbatim>\<open>pre('save')\<close> hook: the date range. After \<^verbatim>\<open>next(error)\<close> the second
  call of \<^verbatim>\<open>next\<close> has no effect.\<close>

definition preSaveDateRange :: "booking \<Rightarrow> saveError + booking" where
  "preSaveDateRange b =
     (if startDate b \<ge> endDate b then Inl (HookError ''End date must be after start date'')
      else Inr b)"

text \<open>The validators of the Booking schema: the required strings are not empty,
  \<^verbatim>\<open>totalAmount\<close> is at least 0, \<^verbatim>\<open>bookingType\<close> is one of the two, \<^verbatim>\<open>specialRequests\<close>
  has at most 200 characters, and \<^verbatim>\<open>bookingId\<close> is there. (The fields that are required
  and have no string type are there by the type of the record.)\<close>

definition bookingSchemaValid :: "booking \<Rightarrow> bool" where
  "bookingSchemaValid b =
     (startTime b \<noteq> [] \<and> endTime b \<noteq> []
      \<and> 0 \<le> totalAmount b
      \<and> (bookingType b = ''hourly'' \<or> bookingType b = ''daily'')
      \<and> pickupLocation b \<noteq> [] \<and> dropoffLocation b \<noteq> []
      \<and> (case specialRequests b of None \<Rightarrow> True | Some t \<Rightarrow> length t \<le> 200)
      \<and> hasBookingId b)"

text \<open>\<^verbatim>\<open>booking.save()\<close>: the validation that the persistence library runs first (the
  parameter \<open>schemaValid\<close>; for this schema it is \<open>bookingSchemaValid\<close>), the two hooks in the
  order of their registration, then the write. A new document is inserted under the
  unique index on \<^verbatim>\<open>bookingId\<close>; a loaded document replaces the stored one of the same
  \<^verbatim>\<open>_id\<close>.\<close>

definition save :: "env \<Rightarrow> bool \<Rightarrow> booking list \<Rightarrow> booking \<Rightarrow> saveError + (booking \<times> booking list)" where
  "save e isNew bs b =
     (if \<not> schemaValid e b then Inl ValidationFailed
      else
        (case preSaveDateRange (preSaveBookingId e b) of
           Inl err \<Rightarrow> Inl err
         | Inr b' \<Rightarrow>
             if isNew then
               (if list_ex (\<lambda>x. bookingId x = bookingId b') bs then Inl DuplicateKey
                else Inr (b', bs @ [b']))
             else
               (if bookingId b' \<noteq> bookingId b \<and> list_ex (\<lambda>x. bookingId x = bookingId b') bs
                then Inl DuplicateKey
                else Inr (b', map (\<lambda>x. if docId x = docId b' then b' else x) bs))))"

text \<open>\<^verbatim>\<open>Booking.findById\<close> and \<^verbatim>\<open>Booking.findByIdAndUpdate(id, { status }, { new: true })\<close>;
  the latter writes without running the \<^verbatim>\<open>save\<close> hooks.\<close>

definition findById :: "booking list \<Rightarrow> objectId \<Rightarrow> booking option" where
  "findById bs i = find (\<lambda>b. docId b = i) bs"

definition findByIdAndUpdateStatus ::
  "booking list \<Rightarrow> objectId \<Rightarrow> bookingStatus \<Rightarrow> (booking option \<times> booking list)" where
  "findByIdAndUpdateStatus bs i st =
     (case findById bs i of
        None \<Rightarrow> (None, bs)
      | Some b \<Rightarrow>
          (Some (b\<lparr>status := st\<rparr>),
           map (\<lambda>x. if docId x = i then x\<lparr>status := st\<rparr> else x) bs))"

text \<open>The filter of the overlap query, the same object in both routes that run it.\<close>

definition overlapFilter :: "objectId \<Rightarrow> int \<Rightarrow> int \<Rightarrow> booking \<Rightarrow> bool" where
  "overlapFilter cid start end' b =
     (car b = cid \<and> (status b = Confirmed \<or> status b = Pending)
      \<and> startDate b \<le> end' \<and> endDate b \<ge> start)"

definition freshId :: "booking list \<Rightarrow> objectId" where
  "freshId bs = Suc (foldr max (map docId bs) 0)"

subsection \<open>Routes\<close>

text \<open>\<^verbatim>\<open>POST /:id/check-availability\<close>. A query with an invalid date is refused by the
  persistence library, which the route answers with status 500.\<close>

definition availabilityMessage :: "bool \<Rightarrow> string" where
  "availabilityMessage a =
     (if a then ''Car is available for the selected dates''
      else ''Car is not available for the selected dates'')"

definition checkAvailability ::
  "env \<Rightarrow> world \<Rightarrow> objectId \<Rightarrow> string \<Rightarrow> string \<Rightarrow> error + (bool \<times> string)" where
  "checkAvailability e w cid sd ed =
     (let errors = validateAvailabilityForm e sd ed in
      if errors \<noteq> [] then Inl (ValidationErrors errors)
      else
        (case cars w cid of
           None \<Rightarrow> Inl (Error 404 ''Car not found'')
         | Some c \<Rightarrow>
             (case (newDate e ed, newDate e sd) of
                (Some end', Some start) \<Rightarrow>
                  (let overlappingBooking = find (overlapFilter cid start end') (bookings w);
                       available = (overlappingBooking = None \<and> isAvailable c)
                   in Inr (available, availabilityMessage available))
              | _ \<Rightarrow> Inl (Error 500 ''Server error while checking availability''))))"

text \<open>\<^verbatim>\<open>totalAmount <= 0\<close>, false for \<^verbatim>\<open>NaN\<close>.\<close>

definition notPositive :: "rat option \<Rightarrow> bool" where
  "notPositive x = (case x of None \<Rightarrow> False | Some v \<Rightarrow> v \<le> 0)"

text \<open>\<^verbatim>\<open>POST /create-razorpay-order\<close>. The request to the provider is recorded in
  \<open>paymentOrders\<close>; \<open>ordersCreate\<close> is the provider's answer, \<open>None\<close> when the call fails.\<close>

definition createRazorpayOrder ::
  "env \<Rightarrow> world \<Rightarrow> identity \<Rightarrow> bookingForm \<Rightarrow> (error + orderReply) \<times> world" where
  "createRazorpayOrder e w u f =
     (let errors = validateOrderForm e f in
      if errors \<noteq> [] then (Inl (ValidationErrors errors), w)
      else
        (case cars w (carId f) of
           None \<Rightarrow> (Inl (Error 404 ''Car not found''), w)
         | Some c \<Rightarrow>
             (let totalAmt = map_option snd
                    (calculateBookingDetails e c (formStartDate f) (formEndDate f)
                       (formStartTime f) (formEndTime f) (formBookingType f))
              in if notPositive totalAmt
                 then (Inl (Error 400 ''Calculated total amount is zero or negative.''), w)
                 else
                   (let options =
                          \<lparr> amount = map_option (\<lambda>t. t * 100) totalAmt,
                            currency = ''INR'',
                            receipt = ''receipt_order_'' @ showNat (dateNow e),
                            payment_capture = 1 \<rparr>;
                        w' = w\<lparr>paymentOrders := paymentOrders w @ [options]\<rparr>
                    in case ordersCreate e options of
                         None \<Rightarrow>
                           (Inl (Error 500 ''Server error while creating payment order''), w')
                       | Some order \<Rightarrow>
                           (Inr \<lparr> replyOrderId = orderId order,
                                  replyCurrency = orderCurrency order,
                                  replyAmount = orderAmount order,
                                  replyKeyId = keyId e,
                                  replyCarTitle = title c,
                                  replyUserName = userName u,
                                  replyUserEmail = userEmail u,
                                  replyUserPhone = userPhone u \<rparr>, w')))))"

text \<open>\<^verbatim>\<open>new Booking({ ... })\<close> in \<^verbatim>\<open>POST /verify-payment\<close>: the schema casts the two date
  strings to dates; a date or a number that does not cast makes the later save fail.\<close>

definition newBooking ::
  "env \<Rightarrow> world \<Rightarrow> identity \<Rightarrow> verifyRequest \<Rightarrow> bookingForm \<Rightarrow> (int \<times> rat) option \<Rightarrow> booking option" where
  "newBooking e w u r f details =
     (case (newDate e (formStartDate f), newDate e (formEndDate f), details) of
        (Some sd, Some ed, Some (dur, totalAmt)) \<Rightarrow>
          Some \<lparr> docId = freshId (bookings w),
                 user = userId u,
                 car = carId f,
                 startDate = sd,
                 endDate = ed,
                 startTime = formStartTime f,
                 endTime = formEndTime f,
                 totalAmount = totalAmt,
                 bookingType = formBookingType f,
                 duration = dur,
                 status = Confirmed,
                 paymentStatus = Paid,
                 razorpayPaymentId = Some (razorpay_payment_id r),
                 razorpayOrderId = Some (razorpay_order_id r),
                 pickupLocation = formPickupLocation f,
                 dropoffLocation = formDropoffLocation f,
                 specialRequests = formSpecialRequests f,
                 bookingId = None \<rparr>
      | _ \<Rightarrow> None)"

definition verifyServerError :: error where
  "verifyServerError = Error 500 ''Server error during payment verification or booking creation''"

text \<open>The interval of the overlap re-check in \<^verbatim>\<open>POST /verify-payment\<close>.\<close>

definition recheckInterval :: "env \<Rightarrow> bookingForm \<Rightarrow> int option \<times> int option" where
  "recheckInterval e f =
     (newDate e (formStartDate f @ ''T'' @ formStartTime f),
      newDate e (formEndDate f @ ''T'' @ formEndTime f))"

text \<open>\<^verbatim>\<open>POST /verify-payment\<close>. A request without \<^verbatim>\<open>bookingDetails\<close> fails in the
  destructuring, inside the \<^verbatim>\<open>try\<close>.\<close>

definition verifyPayment ::
  "env \<Rightarrow> world \<Rightarrow> identity \<Rightarrow> verifyRequest \<Rightarrow> (error + booking) \<times> world" where
  "verifyPayment e w u r =
     (let body = razorpay_order_id r @ ''|'' @ razorpay_payment_id r;
          expectedSignature = createHmac e ''sha256'' (keySecret e) body ''hex''
      in if expectedSignature \<noteq> razorpay_signature r
         then (Inl (Error 400 ''Payment verification failed: Invalid signature''), w)
         else
           (case bookingDetails r of
              None \<Rightarrow> (Inl verifyServerError, w)
            | Some f \<Rightarrow>
                (case cars w (carId f) of
                   None \<Rightarrow> (Inl (Error 404 ''Car not found''), w)
                 | Some c \<Rightarrow>
                     if \<not> isAvailable c then (Inl (Error 400 ''Car is not available''), w)
                     else
                       (case recheckInterval e f of
                          (Some startDateTimeForCheck, Some endDateTimeForCheck) \<Rightarrow>
                            (case find (overlapFilter (carId f) startDateTimeForCheck
                                          endDateTimeForCheck) (bookings w) of
                               Some overlappingBooking \<Rightarrow>
                                 (Inl (Error 400
                                    ''Car is no longer available for the selected dates/times.''), w)
                             | None \<Rightarrow>
                                 (case newBooking e w u r f
                                    (calculateBookingDetails e c (formStartDate f) (formEndDate f)
                                       (formStartTime f) (formEndTime f) (formBookingType f)) of
                                    None \<Rightarrow> (Inl verifyServerError, w)
                                  | Some b \<Rightarrow>
                                      (case save e True (bookings w) b of
                                         Inl err \<Rightarrow> (Inl verifyServerError, w)
                                       | Inr (b', bs') \<Rightarrow>
                                           (Inr b',
                                            w\<lparr>bookings := bs',
                                              cars := (cars w)(carId f \<mapsto>
                                                c\<lparr>totalBookings := totalBookings c + 1\<rparr>)\<rparr>))))
                        | _ \<Rightarrow> (Inl verifyServerError, w)))))"

text \<open>\<^verbatim>\<open>PATCH /:id/cancel\<close>\<close>

definition cancelBooking ::
  "env \<Rightarrow> world \<Rightarrow> identity \<Rightarrow> objectId \<Rightarrow> (error + booking) \<times> world" where
  "cancelBooking e w u i =
     (case findById (bookings w) i of
        None \<Rightarrow> (Inl (Error 404 ''Booking not found''), w)
      | Some b \<Rightarrow>
          if user b \<noteq> userId u then (Inl (Error 403 ''Access denied''), w)
          else if startDate b \<le> int (dateNow e)
          then (Inl (Error 400 ''Cannot cancel booking that has already started''), w)
          else if status b = Cancelled
          then (Inl (Error 400 ''Booking is already cancelled''), w)
          else
            (case save e False (bookings w) (b\<lparr>status := Cancelled\<rparr>) of
               Inl err \<Rightarrow> (Inl (Error 500 ''Server error while cancelling booking''), w)
             | Inr (b', bs') \<Rightarrow> (Inr b', w\<lparr>bookings := bs'\<rparr>)))"

text \<open>\<^verbatim>\<open>PATCH /bookings/:id/status\<close> of the administration routes, for a request that
  passed \<^verbatim>\<open>adminAuth\<close>; the status is one of the four by its type.\<close>

definition updateBookingStatus ::
  "world \<Rightarrow> objectId \<Rightarrow> bookingStatus \<Rightarrow> (error + booking) \<times> world" where
  "updateBookingStatus w i st =
     (case findByIdAndUpdateStatus (bookings w) i st of
        (None, bs') \<Rightarrow> (Inl (Error 404 ''Booking not found''), w)
      | (Some b, bs') \<Rightarrow> (Inr b, w\<lparr>bookings := bs'\<rparr>))"

subsection \<open>Invariants of the booking collection\<close>

text \<open>Every stored booking starts strictly before it ends.\<close>

definition datesOrdered :: "booking list \<Rightarrow> bool" where
  "datesOrdered bs = list_all (\<lambda>b. startDate b < endDate b) bs"

subsection \<open>Sample data\<close>

text \<open>A server in UTC with the validators of the Booking schema; the HMAC is a stand-in
  that joins its arguments. One car, one confirmed booking of it from 2024-01-10 to
  2024-01-12.\<close>

definition sampleHmac :: "string \<Rightarrow> string \<Rightarrow> string \<Rightarrow> string \<Rightarrow> string" where
  "sampleHmac alg key body enc = enc @ '':'' @ alg @ '':'' @ key @ '':'' @ body"

definition sampleEnv :: env where
  "sampleEnv =
     \<lparr> localTZA = (\<lambda>t isUTC. 0), dateNow = 1700000000000, mathRandomBase36 = ''0.k3j9x2mq'',
       keySecret = ''S'', keyId = ''rzp_test'', createHmac = sampleHmac,
       isISO8601 = (\<lambda>s. parseDateOnly s \<noteq> None),
       ordersCreate = (\<lambda>opts. Some \<lparr> orderId = ''order_1'', orderCurrency = currency opts,
                                      orderAmount = amount opts \<rparr>),
       otherDateFormats = (\<lambda>s. None),
       schemaValid = bookingSchemaValid \<rparr>"

definition sampleCar :: car where
  "sampleCar =
     \<lparr> title = ''Swift'', pricePerDay = 1500, pricePerHour = 100, isAvailable = True,
       totalBookings = 4 \<rparr>"

definition sampleBooking :: booking where
  "sampleBooking =
     \<lparr> docId = 7, user = 5, car = 1,
       startDate = 19732 * msPerDay, endDate = 19734 * msPerDay,
       startTime = ''10:00'', endTime = ''18:00'',
       totalAmount = 4500, bookingType = ''daily'', duration = 3,
       status = Confirmed, paymentStatus = Paid,
       razorpayPaymentId = Some ''pay_0'', razorpayOrderId = Some ''order_0'',
       pickupLocation = ''Airport'', dropoffLocation = ''Airport'',
       specialRequests = None, bookingId = Some ''CG1690000000000AB12C'' \<rparr>"

definition sampleWorld :: world where
  "sampleWorld = \<lparr> cars = [1 \<mapsto> sampleCar], bookings = [sampleBooking], paymentOrders = [] \<rparr>"

definition sampleUser :: identity where
  "sampleUser =
     \<lparr> userId = 5, userName = ''Asha'', userEmail = ''asha@example.org'',
       userPhone = ''5550100'' \<rparr>"

definition sampleForm :: bookingForm where
  "sampleForm =
     \<lparr> carId = 1, formStartDate = ''2024-01-01'', formEndDate = ''2024-01-03'',
       formStartTime = ''10:00'', formEndTime = ''18:00'', formBookingType = ''daily'',
       formPickupLocation = ''Airport'', formDropoffLocation = ''Airport'',
       formSpecialRequests = None \<rparr>"

definition sampleRequest :: "bookingForm \<Rightarrow> verifyRequest" where
  "sampleRequest f =
     \<lparr> razorpay_order_id = ''order_1'', razorpay_payment_id = ''pay_1'',
       razorpay_signature = ''hex:sha256:S:order_1|pay_1'', bookingDetails = Some f \<rparr>"

text \<open>A form whose interval meets the stored booking.\<close>

definition conflictForm :: bookingForm where
  "conflictForm = sampleForm\<lparr>formStartDate := ''2024-01-11'', formEndDate := ''2024-01-13''\<rparr>"

text \<open>The document that \<^verbatim>\<open>new Booking\<close> builds for the request with \<open>sampleForm\<close>.\<close>

definition sampleDocument :: booking where
  "sampleDocument =
     \<lparr> docId = 8, user = 5, car = 1,
       startDate = 19723 * msPerDay, endDate = 19725 * msPerDay,
       startTime = ''10:00'', endTime = ''18:00'',
       totalAmount = 4500, bookingType = ''daily'', duration = 3,
       status = Confirmed, paymentStatus = Paid,
       razorpayPaymentId = Some ''pay_1'', razorpayOrderId = Some ''order_1'',
       pickupLocation = ''Airport'', dropoffLocation = ''Airport'',
       specialRequests = None, bookingId = None \<rparr>"

text \<open>An hourly form that ends before it starts.\<close>

definition backwardsForm :: bookingForm where
  "backwardsForm =
     sampleForm\<lparr>formBookingType := ''hourly'', formEndDate := ''2024-01-01'',
       formEndTime := ''09:00''\<rparr>"

text \<open>A collection that holds a booking whose end is not after its start.\<close>

definition badBooking :: booking where
  "badBooking = sampleBooking\<lparr>endDate := 19732 * msPerDay\<rparr>"

definition badWorld :: world where
  "badWorld = sampleWorld\<lparr>bookings := [badBooking]\<rparr>"

text \<open>Two daily forms: one whose times of day are both midnight, one whose times of day
  are the first and the last millisecond of a day.\<close>

definition midnightForm :: bookingForm where
  "midnightForm = sampleForm\<lparr>formStartTime := ''00:00'', formEndTime := ''00:00''\<rparr>"

definition fullDayForm :: bookingForm where
  "fullDayForm = sampleForm\<lparr>formStartTime := ''00:00'', formEndTime := ''23:59:59.999''\<rparr>"

text \<open>A server in New York in the autumn of 2024: four hours behind UTC until the clocks
  go back at 06:00 UTC (02:00 local time) on 2024-11-03, five hours behind after.\<close>

definition newYorkEnv :: env where
  "newYorkEnv =
     sampleEnv\<lparr>localTZA :=
       (\<lambda>t isUTC.
          if isUTC then (if t < 20030 * msPerDay + 6 * msPerHour then - 4 * msPerHour
                         else - 5 * msPerHour)
          else (if t < 20030 * msPerDay + 2 * msPerHour then - 4 * msPerHour
                else - 5 * msPerHour))\<rparr>"

section \<open>Properties\<close>

subsection \<open>Evaluation and auxiliary facts\<close>

lemma ceilQuotient_div: "ceilQuotient a b = - (- a div b)"
  unfolding ceilQuotient_def by (rule ceiling_divide_eq_div)

lemmas date_defs =
  newDate_def parseDateOnly_def parseDateTime_def parseTimeOfDay_def digits_def digit_def
  daysInMonth_def dayFromCivil_def isLeapYear_def setHours_def localTime_def utcTime_def
  ceilQuotient_div

lemmas sample_defs =
  sampleEnv_def sampleCar_def sampleBooking_def sampleWorld_def sampleUser_def
  sampleForm_def sampleRequest_def sampleHmac_def

lemma sample_dates:
  "newDate sampleEnv ''2024-01-01'' = Some (19723 * msPerDay)"
  "newDate sampleEnv ''2024-01-03'' = Some (19725 * msPerDay)"
  "newDate sampleEnv ''2024-01-11'' = Some (19733 * msPerDay)"
  "newDate sampleEnv ''2024-01-12'' = Some (19734 * msPerDay)"
  "newDate sampleEnv ''2024-01-13'' = Some (19735 * msPerDay)"
  "newDate sampleEnv ''2024-01-15'' = Some (19737 * msPerDay)"
  by (simp_all add: date_defs)

lemma find_filter_same:
  "(\<And>x. P x \<Longrightarrow> Q x) \<Longrightarrow> find P (filter Q xs) = find P xs"
  by (induction xs) auto

lemma find_overlap_None:
  "(find (overlapFilter cid s t) bs = None)
     = (\<not> (\<exists>b \<in> set bs. car b = cid \<and> (status b = Confirmed \<or> status b = Pending)
              \<and> startDate b \<le> t \<and> endDate b \<ge> s))"
  by (auto simp add: find_None_iff overlapFilter_def)

text \<open>The route after a matching signature, step by step.\<close>

lemma verifyPayment_signature_mismatch:
  "createHmac e ''sha256'' (keySecret e) (razorpay_order_id r @ ''|'' @ razorpay_payment_id r) ''hex''
     \<noteq> razorpay_signature r
   \<Longrightarrow> verifyPayment e w u r
         = (Inl (Error 400 ''Payment verification failed: Invalid signature''), w)"
  by (simp add: verifyPayment_def Let_def)

lemma save_new_appends: "save e True bs b = Inr (b', bs') \<Longrightarrow> bs' = bs @ [b']"
  by (auto simp add: save_def split: if_splits sum.splits)

lemma verifyPayment_cases:
  "(\<exists>err. verifyPayment e w u r = (Inl err, w))
   \<or> (\<exists>f c s t b.
         createHmac e ''sha256'' (keySecret e)
             (razorpay_order_id r @ ''|'' @ razorpay_payment_id r) ''hex'' = razorpay_signature r
         \<and> bookingDetails r = Some f \<and> cars w (carId f) = Some c \<and> isAvailable c
         \<and> recheckInterval e f = (Some s, Some t)
         \<and> find (overlapFilter (carId f) s t) (bookings w) = None
         \<and> newBooking e w u r f
              (calculateBookingDetails e c (formStartDate f) (formEndDate f)
                 (formStartTime f) (formEndTime f) (formBookingType f)) = Some b
         \<and> (\<exists>b'. save e True (bookings w) b = Inr (b', bookings w @ [b'])
               \<and> verifyPayment e w u r
                   = (Inr b', w\<lparr>bookings := bookings w @ [b'],
                          cars := (cars w)(carId f \<mapsto> c\<lparr>totalBookings := totalBookings c + 1\<rparr>)\<rparr>)))"
  unfolding verifyPayment_def Let_def
  by (auto split: option.splits sum.splits prod.splits if_splits dest: save_new_appends)

lemmas route_defs =
  verifyPayment_def recheckInterval_def overlapFilter_def Let_def
  newBooking_def calculateBookingDetails_def save_def preSaveBookingId_def preSaveDateRange_def
  hasBookingId_def generateBookingId_def randomSuffix_def toUpperCase_def showNat.simps
  digitChar_def freshId_def bookingSchemaValid_def

lemma sample_verify_conflict:
  "verifyPayment sampleEnv sampleWorld sampleUser (sampleRequest conflictForm)
   = (Inl (Error 400 ''Car is no longer available for the selected dates/times.''), sampleWorld)"
  by (simp add: route_defs date_defs sample_defs conflictForm_def)

lemma sample_verify_refused:
  "verifyPayment sampleEnv sampleWorld sampleUser (sampleRequest sampleForm)
   = (Inl verifyServerError, sampleWorld)"
  by (simp add: route_defs date_defs sample_defs)

lemma conflict_recheck:
  "recheckInterval sampleEnv conflictForm
     = (Some (19733 * msPerDay + 10 * msPerHour), Some (19735 * msPerDay + 18 * msPerHour))"
  by (simp add: recheckInterval_def date_defs sample_defs conflictForm_def)

subsection \<open>Availability\<close>

text \<open>Claim C1. For a car that exists and an interval \<open>[start, end]\<close> of valid dates, the
  availability check answers "not available" exactly when the car's \<open>isAvailable\<close> flag
  is false or some booking of the same car with status confirmed or pending satisfies
  \<open>startDate \<le> end\<close> and \<open>endDate \<ge> start\<close> (equal boundaries conflict). Bookings that
  are cancelled or completed play no part: removing them leaves the answer unchanged.\<close>

theorem availability_unavailable_iff:
  assumes valid: "validateAvailabilityForm e sd ed = []"
      and found: "cars w cid = Some c"
      and sd: "newDate e sd = Some start"
      and ed: "newDate e ed = Some end'"
  shows "\<exists>available.
           checkAvailability e w cid sd ed = Inr (available, availabilityMessage available)
           \<and> (\<not> available \<longleftrightarrow>
                (\<not> isAvailable c
                 \<or> (\<exists>b \<in> set (bookings w).
                       car b = cid \<and> (status b = Confirmed \<or> status b = Pending)
                       \<and> startDate b \<le> end' \<and> endDate b \<ge> start)))
           \<and> checkAvailability e
                (w\<lparr>bookings := filter (\<lambda>b. status b = Confirmed \<or> status b = Pending) (bookings w)\<rparr>)
                cid sd ed
              = checkAvailability e w cid sd ed"
proof -
  let ?P = "overlapFilter cid start end'"
  let ?a = "find ?P (bookings w) = None \<and> isAvailable c"
  have active: "find ?P (filter (\<lambda>b. status b = Confirmed \<or> status b = Pending) (bookings w))
                  = find ?P (bookings w)"
    by (rule find_filter_same) (simp add: overlapFilter_def)
  have res: "checkAvailability e w cid sd ed = Inr (?a, availabilityMessage ?a)"
    using valid found sd ed by (simp add: checkAvailability_def Let_def)
  have res': "checkAvailability e
                (w\<lparr>bookings := filter (\<lambda>b. status b = Confirmed \<or> status b = Pending) (bookings w)\<rparr>)
                cid sd ed
               = Inr (?a, availabilityMessage ?a)"
    using valid found sd ed active by (simp add: checkAvailability_def Let_def)
  show ?thesis
    unfolding res res' using find_overlap_None [of cid start end' "bookings w"] by auto
qed

theorem availability_unavailable_iff_witness:
  "validateAvailabilityForm sampleEnv ''2024-01-12'' ''2024-01-15'' = []
   \<and> cars sampleWorld 1 = Some sampleCar
   \<and> newDate sampleEnv ''2024-01-12'' = Some (19734 * msPerDay)
   \<and> newDate sampleEnv ''2024-01-15'' = Some (19737 * msPerDay)
   \<and> isAvailable sampleCar
   \<and> endDate sampleBooking = 19734 * msPerDay
   \<and> checkAvailability sampleEnv sampleWorld 1 ''2024-01-12'' ''2024-01-15''
       = Inr (False, ''Car is not available for the selected dates'')
   \<and> checkAvailability sampleEnv (sampleWorld\<lparr>bookings := [sampleBooking\<lparr>status := Cancelled\<rparr>]\<rparr>)
         1 ''2024-01-12'' ''2024-01-15''
       = Inr (True, ''Car is available for the selected dates'')"
proof -
  have v: "validateAvailabilityForm sampleEnv ''2024-01-12'' ''2024-01-15'' = []"
    by (simp add: validateAvailabilityForm_def check_def sampleEnv_def date_defs)
  have c: "cars sampleWorld 1 = Some sampleCar"
    by (simp add: sampleWorld_def)
  have c': "cars (sampleWorld\<lparr>bookings := [sampleBooking\<lparr>status := Cancelled\<rparr>]\<rparr>) 1 = Some sampleCar"
    by (simp add: sampleWorld_def)
  note s = sample_dates(4) and t = sample_dates(6)
  from availability_unavailable_iff [OF v c s t]
  have "checkAvailability sampleEnv sampleWorld 1 ''2024-01-12'' ''2024-01-15''
          = Inr (False, availabilityMessage False)"
    by (auto simp add: sampleWorld_def sampleBooking_def sampleCar_def)
  moreover from availability_unavailable_iff [OF v c' s t]
  have "checkAvailability sampleEnv (sampleWorld\<lparr>bookings := [sampleBooking\<lparr>status := Cancelled\<rparr>]\<rparr>)
          1 ''2024-01-12'' ''2024-01-15'' = Inr (True, availabilityMessage True)"
    by (auto simp add: sampleWorld_def sampleBooking_def sampleCar_def)
  ultimately show ?thesis
    using v c s t by (simp add: availabilityMessage_def sampleCar_def sampleBooking_def)
qed

subsection \<open>Payment verification\<close>

text \<open>Claim C2. In \<open>verifyPayment\<close>, once the signature matches: when the car is
  missing, its \<open>isAvailable\<close> flag is false, or the re-check finds a confirmed or pending
  booking of the car that overlaps the interval, the route answers with an error and the
  database is the one it started from (no booking, no increment of \<open>totalBookings\<close>).
  Whenever the database does change, every check has passed, exactly one booking with
  status confirmed and payment status paid was appended, and the car's counter went up
  by one.\<close>

theorem verifyPayment_no_partial_commit:
  assumes sig: "createHmac e ''sha256'' (keySecret e)
                  (razorpay_order_id r @ ''|'' @ razorpay_payment_id r) ''hex'' = razorpay_signature r"
      and form: "bookingDetails r = Some f"
  shows "((cars w (carId f) = None
            \<or> (\<exists>c. cars w (carId f) = Some c \<and> \<not> isAvailable c)
            \<or> (\<exists>s t. recheckInterval e f = (Some s, Some t)
                  \<and> (\<exists>b \<in> set (bookings w).
                        car b = carId f \<and> (status b = Confirmed \<or> status b = Pending)
                        \<and> startDate b \<le> t \<and> endDate b \<ge> s)))
           \<longrightarrow> (\<exists>err. verifyPayment e w u r = (Inl err, w)))
         \<and> (snd (verifyPayment e w u r) \<noteq> w
           \<longrightarrow> (\<exists>c s t b.
                  cars w (carId f) = Some c \<and> isAvailable c
                  \<and> recheckInterval e f = (Some s, Some t)
                  \<and> \<not> (\<exists>x \<in> set (bookings w).
                          car x = carId f \<and> (status x = Confirmed \<or> status x = Pending)
                          \<and> startDate x \<le> t \<and> endDate x \<ge> s)
                  \<and> status b = Confirmed \<and> paymentStatus b = Paid
                  \<and> verifyPayment e w u r
                      = (Inr b, w\<lparr>bookings := bookings w @ [b],
                             cars := (cars w)(carId f \<mapsto>
                               c\<lparr>totalBookings := totalBookings c + 1\<rparr>)\<rparr>)))"
proof -
  let ?conflict = "\<lambda>s t. \<exists>b \<in> set (bookings w).
      car b = carId f \<and> (status b = Confirmed \<or> status b = Pending)
      \<and> startDate b \<le> t \<and> endDate b \<ge> s"
  consider (fail) err where "verifyPayment e w u r = (Inl err, w)"
    | (ok) f' c s t b b' where
        "bookingDetails r = Some f'" "cars w (carId f') = Some c" "isAvailable c"
        "recheckInterval e f' = (Some s, Some t)"
        "find (overlapFilter (carId f') s t) (bookings w) = None"
        "newBooking e w u r f'
           (calculateBookingDetails e c (formStartDate f') (formEndDate f')
              (formStartTime f') (formEndTime f') (formBookingType f')) = Some b"
        "save e True (bookings w) b = Inr (b', bookings w @ [b'])"
        "verifyPayment e w u r
           = (Inr b', w\<lparr>bookings := bookings w @ [b'],
                  cars := (cars w)(carId f' \<mapsto> c\<lparr>totalBookings := totalBookings c + 1\<rparr>)\<rparr>)"
    using verifyPayment_cases [of e w u r] by blast
  then show ?thesis
  proof cases
    case fail
    then show ?thesis by simp
  next
    case ok
    from ok(1) form have ff: "f' = f" by simp
    have noconf: "\<not> ?conflict s t"
      using ok(5) unfolding ff by (simp add: find_overlap_None)
    have st: "status b = Confirmed \<and> paymentStatus b = Paid"
      using ok(6) by (auto simp add: newBooking_def split: option.splits prod.splits)
    have st': "status b' = status b \<and> paymentStatus b' = paymentStatus b"
      using ok(7)
      by (auto simp add: save_def preSaveDateRange_def preSaveBookingId_def
            split: if_splits sum.splits)
    have first: "\<not> (cars w (carId f) = None
            \<or> (\<exists>c. cars w (carId f) = Some c \<and> \<not> isAvailable c)
            \<or> (\<exists>s t. recheckInterval e f = (Some s, Some t) \<and> ?conflict s t))"
      using ok(2,3,4) noconf unfolding ff by auto
    have second: "\<exists>c s t b.
                  cars w (carId f) = Some c \<and> isAvailable c
                  \<and> recheckInterval e f = (Some s, Some t)
                  \<and> \<not> ?conflict s t
                  \<and> status b = Confirmed \<and> paymentStatus b = Paid
                  \<and> verifyPayment e w u r
                      = (Inr b, w\<lparr>bookings := bookings w @ [b],
                             cars := (cars w)(carId f \<mapsto>
                               c\<lparr>totalBookings := totalBookings c + 1\<rparr>)\<rparr>)"
      using ok(2,3,4,8) noconf st st' unfolding ff by metis
    from first second show ?thesis by blast
  qed
qed

theorem verifyPayment_no_partial_commit_witness:
  "createHmac sampleEnv ''sha256'' (keySecret sampleEnv)
       (razorpay_order_id (sampleRequest conflictForm) @ ''|''
          @ razorpay_payment_id (sampleRequest conflictForm)) ''hex''
     = razorpay_signature (sampleRequest conflictForm)
   \<and> bookingDetails (sampleRequest conflictForm) = Some conflictForm
   \<and> recheckInterval sampleEnv conflictForm
       = (Some (19733 * msPerDay + 10 * msPerHour), Some (19735 * msPerDay + 18 * msPerHour))
   \<and> sampleBooking \<in> set (bookings sampleWorld)
   \<and> car sampleBooking = carId conflictForm \<and> status sampleBooking = Confirmed
   \<and> startDate sampleBooking \<le> 19735 * msPerDay + 18 * msPerHour
   \<and> endDate sampleBooking \<ge> 19733 * msPerDay + 10 * msPerHour
   \<and> verifyPayment sampleEnv sampleWorld sampleUser (sampleRequest conflictForm)
       = (Inl (Error 400 ''Car is no longer available for the selected dates/times.''), sampleWorld)
   \<and> bookingDetails (sampleRequest (sampleForm\<lparr>carId := 2\<rparr>)) = Some (sampleForm\<lparr>carId := 2\<rparr>)
   \<and> cars sampleWorld (carId (sampleForm\<lparr>carId := 2\<rparr>)) = None
   \<and> verifyPayment sampleEnv sampleWorld sampleUser (sampleRequest (sampleForm\<lparr>carId := 2\<rparr>))
       = (Inl (Error 404 ''Car not found''), sampleWorld)"
proof -
  have sig: "createHmac sampleEnv ''sha256'' (keySecret sampleEnv)
       (razorpay_order_id (sampleRequest f) @ ''|'' @ razorpay_payment_id (sampleRequest f)) ''hex''
     = razorpay_signature (sampleRequest f)" for f
    by (simp add: sample_defs)
  have form: "bookingDetails (sampleRequest f) = Some f" for f
    by (simp add: sampleRequest_def)
  have facts: "sampleBooking \<in> set (bookings sampleWorld)
     \<and> car sampleBooking = carId conflictForm \<and> status sampleBooking = Confirmed
     \<and> startDate sampleBooking \<le> 19735 * msPerDay + 18 * msPerHour
     \<and> endDate sampleBooking \<ge> 19733 * msPerDay + 10 * msPerHour"
    by (simp add: sample_defs conflictForm_def)
  have missing: "cars sampleWorld (carId (sampleForm\<lparr>carId := 2\<rparr>)) = None"
    by (simp add: sample_defs)
  have refused: "verifyPayment sampleEnv sampleWorld sampleUser (sampleRequest conflictForm)
       = (Inl (Error 400 ''Car is no longer available for the selected dates/times.''), sampleWorld)"
    using verifyPayment_no_partial_commit
            [OF sig [of conflictForm] form [of conflictForm], of sampleWorld sampleUser]
    by (simp add: sample_verify_conflict)
  have notFound: "\<exists>err. verifyPayment sampleEnv sampleWorld sampleUser
                     (sampleRequest (sampleForm\<lparr>carId := 2\<rparr>)) = (Inl err, sampleWorld)"
    using verifyPayment_no_partial_commit
            [OF sig [of "sampleForm\<lparr>carId := 2\<rparr>"] form [of "sampleForm\<lparr>carId := 2\<rparr>"],
             of sampleWorld sampleUser] missing
    by blast
  then have notFound': "verifyPayment sampleEnv sampleWorld sampleUser
                     (sampleRequest (sampleForm\<lparr>carId := 2\<rparr>))
                   = (Inl (Error 404 ''Car not found''), sampleWorld)"
    using missing by (simp add: verifyPayment_def Let_def sample_defs)
  show ?thesis
    by (intro conjI)
       (rule sig form conflict_recheck facts [THEN conjunct1]
          facts [THEN conjunct2, THEN conjunct1]
          facts [THEN conjunct2, THEN conjunct2, THEN conjunct1]
          facts [THEN conjunct2, THEN conjunct2, THEN conjunct2, THEN conjunct1]
          facts [THEN conjunct2, THEN conjunct2, THEN conjunct2, THEN conjunct2]
          refused missing notFound')+
qed

text \<open>Claim C3. The route refuses the signature exactly when it differs from the hex
  digest of the HMAC-SHA256, keyed with the provider's secret, of
  \<open>orderId @ ''|'' @ paymentId\<close>; a refused signature is answered with status 400 and
  leaves the database as it was.\<close>

theorem signature_accepted_iff:
  "(fst (verifyPayment e w u r)
      = Inl (Error 400 ''Payment verification failed: Invalid signature'')
     \<longleftrightarrow> razorpay_signature r
          \<noteq> createHmac e ''sha256'' (keySecret e)
              (razorpay_order_id r @ ''|'' @ razorpay_payment_id r) ''hex'')
   \<and> (razorpay_signature r
          \<noteq> createHmac e ''sha256'' (keySecret e)
              (razorpay_order_id r @ ''|'' @ razorpay_payment_id r) ''hex''
      \<longrightarrow> verifyPayment e w u r
            = (Inl (Error 400 ''Payment verification failed: Invalid signature''), w))"
proof -
  let ?expected = "createHmac e ''sha256'' (keySecret e)
                     (razorpay_order_id r @ ''|'' @ razorpay_payment_id r) ''hex''"
  have rejected: "verifyPayment e w u r
                    = (Inl (Error 400 ''Payment verification failed: Invalid signature''), w)"
    if "razorpay_signature r \<noteq> ?expected"
    using that verifyPayment_signature_mismatch [of e r w u] by simp
  have accepted: "fst (verifyPayment e w u r)
                    \<noteq> Inl (Error 400 ''Payment verification failed: Invalid signature'')"
    if "razorpay_signature r = ?expected"
    using that unfolding verifyPayment_def Let_def verifyServerError_def
    by (simp split: option.splits sum.splits prod.splits)
  from rejected accepted show ?thesis
    by (cases "razorpay_signature r = ?expected") auto
qed

theorem signature_accepted_iff_witness:
  "createHmac sampleEnv ''sha256'' (keySecret sampleEnv) (''order_1'' @ ''|'' @ ''pay_1'') ''hex''
     = ''hex:sha256:S:order_1|pay_1''
   \<and> fst (verifyPayment sampleEnv sampleWorld sampleUser (sampleRequest sampleForm))
       \<noteq> Inl (Error 400 ''Payment verification failed: Invalid signature'')
   \<and> verifyPayment sampleEnv sampleWorld sampleUser
         ((sampleRequest sampleForm)\<lparr>razorpay_signature := ''hex:sha256:S:order_1|pay_2''\<rparr>)
       = (Inl (Error 400 ''Payment verification failed: Invalid signature''), sampleWorld)"
proof -
  have good: "razorpay_signature (sampleRequest sampleForm)
     = createHmac sampleEnv ''sha256'' (keySecret sampleEnv)
         (razorpay_order_id (sampleRequest sampleForm) @ ''|''
            @ razorpay_payment_id (sampleRequest sampleForm)) ''hex''"
    by (simp add: sample_defs)
  have bad: "razorpay_signature
               ((sampleRequest sampleForm)\<lparr>razorpay_signature := ''hex:sha256:S:order_1|pay_2''\<rparr>)
     \<noteq> createHmac sampleEnv ''sha256'' (keySecret sampleEnv)
         (razorpay_order_id
            ((sampleRequest sampleForm)\<lparr>razorpay_signature := ''hex:sha256:S:order_1|pay_2''\<rparr>)
          @ ''|'' @ razorpay_payment_id
            ((sampleRequest sampleForm)\<lparr>razorpay_signature := ''hex:sha256:S:order_1|pay_2''\<rparr>))
         ''hex''"
    by (simp add: sample_defs)
  have "fst (verifyPayment sampleEnv sampleWorld sampleUser (sampleRequest sampleForm))
          \<noteq> Inl (Error 400 ''Payment verification failed: Invalid signature'')"
    using signature_accepted_iff [of sampleEnv sampleWorld sampleUser "sampleRequest sampleForm"] good
    by simp
  moreover have "verifyPayment sampleEnv sampleWorld sampleUser
         ((sampleRequest sampleForm)\<lparr>razorpay_signature := ''hex:sha256:S:order_1|pay_2''\<rparr>)
       = (Inl (Error 400 ''Payment verification failed: Invalid signature''), sampleWorld)"
    using signature_accepted_iff [of sampleEnv sampleWorld sampleUser
            "(sampleRequest sampleForm)\<lparr>razorpay_signature := ''hex:sha256:S:order_1|pay_2''\<rparr>"] bad
    by blast
  moreover have "createHmac sampleEnv ''sha256'' (keySecret sampleEnv)
       (''order_1'' @ ''|'' @ ''pay_1'') ''hex'' = ''hex:sha256:S:order_1|pay_1''"
    by (simp add: sample_defs)
  ultimately show ?thesis by simp
qed

subsection \<open>Pricing\<close>

lemma ceilQuotient_bounds:
  assumes "0 < b"
  shows "(ceilQuotient a b - 1) * b < a \<and> a \<le> ceilQuotient a b * b"
proof -
  define q where "q = - a div b"
  define r where "r = - a mod b"
  have c: "ceilQuotient a b = - q" by (simp add: ceilQuotient_div q_def)
  have "q * b + r = - a" unfolding q_def r_def by (rule div_mult_mod_eq)
  then have a: "a = - (q * b) - r" by simp
  have r: "0 \<le> r" "r < b" using assms by (simp_all add: r_def)
  have "(- q - 1) * b = - (q * b) - b" by (simp add: algebra_simps)
  with a r show ?thesis unfolding c by simp
qed

lemma ceilQuotient_unique:
  assumes "0 < b" and "(d - 1) * b < a" and "a \<le> d * b"
  shows "ceilQuotient a b = d"
proof -
  from ceilQuotient_bounds [OF assms(1), of a]
  have lo: "(ceilQuotient a b - 1) * b < a" and hi: "a \<le> ceilQuotient a b * b" by simp_all
  have "ceilQuotient a b - 1 < d"
    using lo assms(3) assms(1) by (meson less_le_trans mult_less_cancel_right_pos)
  moreover have "d - 1 < ceilQuotient a b"
    using hi assms(2) assms(1) by (meson less_le_trans mult_less_cancel_right_pos)
  ultimately show ?thesis by simp
qed

lemma setHours_midnight:
  "setHours e t 0 0 0 0 = utcTime e ((localTime e t div msPerDay) * msPerDay)"
  by (simp add: setHours_def)

lemma setHours_last:
  "setHours e t 23 59 59 999
     = utcTime e ((localTime e t div msPerDay) * msPerDay + (msPerDay - 1))"
  by (simp add: setHours_def add.commute)

lemma parseDateOnly_length: "parseDateOnly s = Some a \<Longrightarrow> length s = 10"
  by (simp add: parseDateOnly_def split: if_splits)

lemma parseTimeOfDay_length:
  "parseTimeOfDay s = Some x \<Longrightarrow> length s = 5 \<or> length s = 8 \<or> length s = 12"
  unfolding parseTimeOfDay_def by (cases "length s = 5 \<or> length s = 8 \<or> length s = 12") simp_all

lemma parse_combined:
  assumes d: "parseDateOnly sd = Some a" and t: "parseTimeOfDay st = Some x"
  shows "parseDateOnly (sd @ ''T'' @ st) = None"
    and "parseDateTime (sd @ ''T'' @ st) = Some (a, x)"
proof -
  note ld = parseDateOnly_length [OF d] and lt = parseTimeOfDay_length [OF t]
  show "parseDateOnly (sd @ ''T'' @ st) = None"
    using ld by (simp add: parseDateOnly_def)
  have "take 10 (sd @ ''T'' @ st) = sd" "drop 11 (sd @ ''T'' @ st) = st"
    "(sd @ ''T'' @ st) ! 10 = CHR ''T''"
    using ld by (simp_all add: nth_append)
  moreover have "length (sd @ ''T'' @ st) = 16 \<or> length (sd @ ''T'' @ st) = 19
                   \<or> length (sd @ ''T'' @ st) = 23"
    using ld lt by auto
  ultimately show "parseDateTime (sd @ ''T'' @ st) = Some (a, x)"
    using d t by (simp add: parseDateTime_def)
qed

lemma newDate_dateOnly: "parseDateOnly s = Some a \<Longrightarrow> newDate e s = Some (a * msPerDay)"
  by (simp add: newDate_def)

lemma newDate_combined:
  "parseDateOnly sd = Some a \<Longrightarrow> parseTimeOfDay st = Some x
   \<Longrightarrow> newDate e (sd @ ''T'' @ st) = Some (utcTime e (a * msPerDay + x))"
  using parse_combined [of sd a st x] by (simp add: newDate_def)

lemma daily_details:
  assumes "newDate e sd = Some s" and "newDate e ed = Some t"
  shows "calculateBookingDetails e c sd ed st et ''daily''
           = Some (ceilQuotient (setHours e t 23 59 59 999 - setHours e s 0 0 0 0) msPerDay,
                   of_int (ceilQuotient (setHours e t 23 59 59 999 - setHours e s 0 0 0 0)
                             msPerDay) * pricePerDay c)"
  using assms by (simp add: calculateBookingDetails_def Let_def)

text \<open>Where the offset of the zone is the same \<open>off\<close> at the four instants that the
  computation looks at, the duration is the number of calendar days from the first to the
  last, both counted.\<close>

lemma daily_same_offset:
  assumes sd: "parseDateOnly sd = Some a" and ed: "parseDateOnly ed = Some b"
      and o1: "localTZA e (a * msPerDay) True = off"
      and o2: "localTZA e (b * msPerDay) True = off"
      and o3: "localTZA e (((a * msPerDay + off) div msPerDay) * msPerDay) False = off"
      and o4: "localTZA e (((b * msPerDay + off) div msPerDay) * msPerDay + (msPerDay - 1)) False
                 = off"
  shows "calculateBookingDetails e c sd ed st et ''daily''
           = Some (b - a + 1, of_int (b - a + 1) * pricePerDay c)"
proof -
  let ?s = "setHours e (a * msPerDay) 0 0 0 0"
  let ?t = "setHours e (b * msPerDay) 23 59 59 999"
  have s: "?s = ((a * msPerDay + off) div msPerDay) * msPerDay - off"
    unfolding setHours_midnight using o1 o3 by (simp add: localTime_def utcTime_def)
  have t: "?t = ((b * msPerDay + off) div msPerDay) * msPerDay + (msPerDay - 1) - off"
    unfolding setHours_last using o2 o4 by (simp add: localTime_def utcTime_def)
  have days: "(a * msPerDay + off) div msPerDay = a + off div msPerDay"
    "(b * msPerDay + off) div msPerDay = b + off div msPerDay"
    by simp_all
  have diff: "?t - ?s = (b - a) * msPerDay + (msPerDay - 1)"
    unfolding s t days by (simp add: algebra_simps)
  have "ceilQuotient (?t - ?s) msPerDay = b - a + 1"
    unfolding diff by (rule ceilQuotient_unique) (simp_all add: algebra_simps)
  with daily_details [of e sd "a * msPerDay" ed "b * msPerDay" c st et]
    newDate_dateOnly [OF sd, of e] newDate_dateOnly [OF ed, of e]
  show ?thesis by simp
qed

lemma jan_2024:
  "parseDateOnly ''2024-01-01'' = Some 19723"
  "parseDateOnly ''2024-01-03'' = Some 19725"
  by (simp_all add: date_defs)

text \<open>Where the clocks change in between, the count is another: from 2024-11-02 to
  2024-11-04 in New York the difference is three days and one hour less a millisecond.\<close>

lemma daily_across_clock_change:
  "calculateBookingDetails newYorkEnv sampleCar ''2024-11-02'' ''2024-11-04'' ''10:00'' ''18:00''
     ''daily'' = Some (4, 4 * pricePerDay sampleCar)"
  by (simp add: calculateBookingDetails_def date_defs newYorkEnv_def sample_defs)

text \<open>Claim C4, corrected. For a daily booking with two valid dates the pricing takes the
  start at 00:00:00.000 and the end at 23:59:59.999 of their local calendar dates; the
  duration is the ceiling of the difference in milliseconds divided by the milliseconds
  of a day, and the total is the duration times \<open>pricePerDay\<close>. From 2024-01-01 to
  2024-01-03, on a server whose offset from UTC is the same at the instants of the
  computation, the duration is 3 days and the total is 3 times \<open>pricePerDay\<close> (the claim
  says 2).\<close>

theorem daily_pricing:
  "(newDate e sd = Some s \<and> newDate e ed = Some t
      \<longrightarrow> (\<exists>start' end' d.
             calculateBookingDetails e c sd ed st et ''daily''
               = Some (d, of_int d * pricePerDay c)
             \<and> start' = utcTime e ((localTime e s div msPerDay) * msPerDay)
             \<and> end' = utcTime e ((localTime e t div msPerDay) * msPerDay + (msPerDay - 1))
             \<and> d = \<lceil>rat_of_int (end' - start') / rat_of_int msPerDay\<rceil>))
   \<and> (localTZA e (19723 * msPerDay) True = off
      \<and> localTZA e (19725 * msPerDay) True = off
      \<and> localTZA e (((19723 * msPerDay + off) div msPerDay) * msPerDay) False = off
      \<and> localTZA e (((19725 * msPerDay + off) div msPerDay) * msPerDay + (msPerDay - 1)) False
          = off
      \<longrightarrow> calculateBookingDetails e c ''2024-01-01'' ''2024-01-03'' st et ''daily''
            = Some (3, 3 * pricePerDay c))"
proof (intro conjI impI)
  assume "newDate e sd = Some s \<and> newDate e ed = Some t"
  then have h: "newDate e sd = Some s" "newDate e ed = Some t" by simp_all
  let ?s = "utcTime e ((localTime e s div msPerDay) * msPerDay)"
  let ?t = "utcTime e ((localTime e t div msPerDay) * msPerDay + (msPerDay - 1))"
  let ?d = "ceilQuotient (?t - ?s) msPerDay"
  have r: "calculateBookingDetails e c sd ed st et ''daily'' = Some (?d, of_int ?d * pricePerDay c)"
    using daily_details [OF h, of c st et] by (simp only: setHours_midnight setHours_last)
  have c: "?d = \<lceil>rat_of_int (?t - ?s) / rat_of_int msPerDay\<rceil>"
    by (simp only: ceilQuotient_def)
  show "\<exists>start' end' d.
             calculateBookingDetails e c sd ed st et ''daily''
               = Some (d, of_int d * pricePerDay c)
             \<and> start' = utcTime e ((localTime e s div msPerDay) * msPerDay)
             \<and> end' = utcTime e ((localTime e t div msPerDay) * msPerDay + (msPerDay - 1))
             \<and> d = \<lceil>rat_of_int (end' - start') / rat_of_int msPerDay\<rceil>"
    apply (rule exI [of _ ?s])
    apply (rule exI [of _ ?t])
    apply (rule exI [of _ ?d])
    apply (intro conjI)
       apply (rule r)
      apply (rule refl)
     apply (rule refl)
    apply (rule c)
    done
next
  assume "localTZA e (19723 * msPerDay) True = off
      \<and> localTZA e (19725 * msPerDay) True = off
      \<and> localTZA e (((19723 * msPerDay + off) div msPerDay) * msPerDay) False = off
      \<and> localTZA e (((19725 * msPerDay + off) div msPerDay) * msPerDay + (msPerDay - 1)) False
          = off"
  then have o: "localTZA e (19723 * msPerDay) True = off"
    "localTZA e (19725 * msPerDay) True = off"
    "localTZA e (((19723 * msPerDay + off) div msPerDay) * msPerDay) False = off"
    "localTZA e (((19725 * msPerDay + off) div msPerDay) * msPerDay + (msPerDay - 1)) False = off"
    by blast+
  show "calculateBookingDetails e c ''2024-01-01'' ''2024-01-03'' st et ''daily''
          = Some (3, 3 * pricePerDay c)"
    using daily_same_offset [OF jan_2024 o, of c st et] by simp
qed

theorem daily_three_days_counterexample:
  "calculateBookingDetails sampleEnv sampleCar ''2024-01-01'' ''2024-01-03'' ''10:00'' ''18:00''
     ''daily'' = Some (3, 3 * pricePerDay sampleCar)
   \<and> calculateBookingDetails sampleEnv sampleCar ''2024-01-01'' ''2024-01-03'' ''10:00'' ''18:00''
       ''daily'' \<noteq> Some (2, 2 * pricePerDay sampleCar)"
  by (simp add: calculateBookingDetails_def date_defs sample_defs)

theorem daily_pricing_witness:
  "newDate sampleEnv ''2024-01-01'' = Some (19723 * msPerDay)
   \<and> newDate sampleEnv ''2024-01-03'' = Some (19725 * msPerDay)
   \<and> localTZA sampleEnv (19723 * msPerDay) True = 0
   \<and> localTZA sampleEnv (19725 * msPerDay) True = 0
   \<and> localTZA sampleEnv (((19723 * msPerDay + 0) div msPerDay) * msPerDay) False = 0
   \<and> localTZA sampleEnv (((19725 * msPerDay + 0) div msPerDay) * msPerDay + (msPerDay - 1)) False
       = 0
   \<and> calculateBookingDetails sampleEnv sampleCar ''2024-01-01'' ''2024-01-03'' ''10:00'' ''18:00''
       ''daily'' = Some (3, 3 * pricePerDay sampleCar)
   \<and> utcTime sampleEnv ((localTime sampleEnv (19723 * msPerDay) div msPerDay) * msPerDay)
       = 19723 * msPerDay
   \<and> utcTime sampleEnv ((localTime sampleEnv (19725 * msPerDay) div msPerDay) * msPerDay
         + (msPerDay - 1))
       = 19725 * msPerDay + (msPerDay - 1)
   \<and> \<lceil>rat_of_int ((19725 * msPerDay + (msPerDay - 1)) - 19723 * msPerDay) / rat_of_int msPerDay\<rceil>
       = 3"
proof -
  have o: "localTZA sampleEnv x u = 0" for x u by (simp add: sampleEnv_def)
  have three: "calculateBookingDetails sampleEnv sampleCar ''2024-01-01'' ''2024-01-03''
                 ''10:00'' ''18:00'' ''daily'' = Some (3, 3 * pricePerDay sampleCar)"
    using daily_pricing [of sampleEnv "''2024-01-01''" "19723 * msPerDay" "''2024-01-03''"
        "19725 * msPerDay" sampleCar "''10:00''" "''18:00''" 0, THEN conjunct2] o
    by blast
  have s: "utcTime sampleEnv ((localTime sampleEnv (19723 * msPerDay) div msPerDay) * msPerDay)
             = 19723 * msPerDay"
    and t: "utcTime sampleEnv ((localTime sampleEnv (19725 * msPerDay) div msPerDay) * msPerDay
              + (msPerDay - 1)) = 19725 * msPerDay + (msPerDay - 1)"
    by (simp_all add: utcTime_def localTime_def sampleEnv_def)
  have c: "\<lceil>rat_of_int ((19725 * msPerDay + (msPerDay - 1)) - 19723 * msPerDay)
             / rat_of_int msPerDay\<rceil> = 3"
    using ceilQuotient_div [of "(19725 * msPerDay + (msPerDay - 1)) - 19723 * msPerDay" msPerDay]
    unfolding ceilQuotient_def by simp
  show ?thesis
    by (intro conjI) (rule sample_dates(1,2) o three s t c)+
qed

lemma hourly_details:
  assumes "bt \<noteq> ''daily''"
      and "newDate e (sd @ ''T'' @ st) = Some s" and "newDate e (ed @ ''T'' @ et) = Some t"
  shows "calculateBookingDetails e c sd ed st et bt
           = Some (ceilQuotient (t - s) msPerHour,
                   of_int (ceilQuotient (t - s) msPerHour) * pricePerHour c)"
  using assms by (simp add: calculateBookingDetails_def Let_def)

lemma one_hour_one_minute: "ceilQuotient (msPerHour + msPerMinute) msPerHour = 2"
  by (simp add: ceilQuotient_div)

text \<open>Claim C5. For an hourly booking (any type other than \<open>''daily''\<close>) the pricing takes
  the instants of \<open>startDate @ ''T'' @ startTime\<close> and \<open>endDate @ ''T'' @ endTime\<close>, which for a
  date and a time of day is that local time of that date; the duration is the ceiling of
  the difference in milliseconds divided by the milliseconds of an hour, that is the
  least number of whole hours that covers the difference, and the total is the duration
  times \<open>pricePerHour\<close>. One hour and one minute give a duration of 2.\<close>

theorem hourly_pricing:
  "(bt \<noteq> ''daily'' \<and> newDate e (sd @ ''T'' @ st) = Some s
      \<and> newDate e (ed @ ''T'' @ et) = Some t
      \<longrightarrow> (\<exists>d. calculateBookingDetails e c sd ed st et bt
                  = Some (d, of_int d * pricePerHour c)
                \<and> d = \<lceil>rat_of_int (t - s) / rat_of_int msPerHour\<rceil>
                \<and> (d - 1) * msPerHour < t - s \<and> t - s \<le> d * msPerHour
                \<and> (t - s = msPerHour + msPerMinute \<longrightarrow> d = 2)))
   \<and> (parseDateOnly sd = Some a \<and> parseTimeOfDay st = Some x
      \<longrightarrow> newDate e (sd @ ''T'' @ st)
            = Some (a * msPerDay + x - localTZA e (a * msPerDay + x) False))"
proof (intro conjI impI)
  assume "bt \<noteq> ''daily'' \<and> newDate e (sd @ ''T'' @ st) = Some s
            \<and> newDate e (ed @ ''T'' @ et) = Some t"
  then have h: "bt \<noteq> ''daily''" "newDate e (sd @ ''T'' @ st) = Some s"
    "newDate e (ed @ ''T'' @ et) = Some t" by simp_all
  let ?d = "ceilQuotient (t - s) msPerHour"
  have r: "calculateBookingDetails e c sd ed st et bt = Some (?d, of_int ?d * pricePerHour c)"
    by (rule hourly_details [OF h])
  have c: "?d = \<lceil>rat_of_int (t - s) / rat_of_int msPerHour\<rceil>"
    by (simp only: ceilQuotient_def)
  have b: "(?d - 1) * msPerHour < t - s \<and> t - s \<le> ?d * msPerHour"
    by (rule ceilQuotient_bounds) simp
  have m: "t - s = msPerHour + msPerMinute \<longrightarrow> ?d = 2"
    using one_hour_one_minute by simp
  show "\<exists>d. calculateBookingDetails e c sd ed st et bt = Some (d, of_int d * pricePerHour c)
            \<and> d = \<lceil>rat_of_int (t - s) / rat_of_int msPerHour\<rceil>
            \<and> (d - 1) * msPerHour < t - s \<and> t - s \<le> d * msPerHour
            \<and> (t - s = msPerHour + msPerMinute \<longrightarrow> d = 2)"
    apply (rule exI [of _ ?d])
    apply (intro conjI)
        apply (rule r)
       apply (rule c)
      apply (rule b [THEN conjunct1])
     apply (rule b [THEN conjunct2])
    apply (rule m)
    done
next
  assume "parseDateOnly sd = Some a \<and> parseTimeOfDay st = Some x"
  then show "newDate e (sd @ ''T'' @ st)
               = Some (a * msPerDay + x - localTZA e (a * msPerDay + x) False)"
    using newDate_combined [of sd a st x e] by (simp add: utcTime_def)
qed

lemma hourly_sample_dates:
  "newDate sampleEnv (''2024-01-01'' @ ''T'' @ ''10:00'') = Some (19723 * msPerDay + 10 * msPerHour)"
  "newDate sampleEnv (''2024-01-01'' @ ''T'' @ ''11:01'')
     = Some (19723 * msPerDay + 11 * msPerHour + msPerMinute)"
  "parseTimeOfDay ''10:00'' = Some (10 * msPerHour)"
  by (simp_all add: date_defs sample_defs)

theorem hourly_pricing_witness:
  "''hourly'' \<noteq> ''daily''
   \<and> newDate sampleEnv (''2024-01-01'' @ ''T'' @ ''10:00'') = Some (19723 * msPerDay + 10 * msPerHour)
   \<and> newDate sampleEnv (''2024-01-01'' @ ''T'' @ ''11:01'')
       = Some (19723 * msPerDay + 11 * msPerHour + msPerMinute)
   \<and> (19723 * msPerDay + 11 * msPerHour + msPerMinute) - (19723 * msPerDay + 10 * msPerHour)
       = msPerHour + msPerMinute
   \<and> calculateBookingDetails sampleEnv sampleCar ''2024-01-01'' ''2024-01-01'' ''10:00'' ''11:01''
       ''hourly'' = Some (2, 2 * pricePerHour sampleCar)
   \<and> parseDateOnly ''2024-01-01'' = Some 19723
   \<and> parseTimeOfDay ''10:00'' = Some (10 * msPerHour)"
proof -
  have ne: "''hourly'' \<noteq> ''daily''" by simp
  from hourly_pricing [of "''hourly''" sampleEnv "''2024-01-01''" "''10:00''"
      "19723 * msPerDay + 10 * msPerHour" "''2024-01-01''" "''11:01''"
      "19723 * msPerDay + 11 * msPerHour + msPerMinute" sampleCar, THEN conjunct1]
    ne hourly_sample_dates(1,2)
  have "calculateBookingDetails sampleEnv sampleCar ''2024-01-01'' ''2024-01-01'' ''10:00'' ''11:01''
       ''hourly'' = Some (2, 2 * pricePerHour sampleCar)"
    by auto
  with hourly_sample_dates jan_2024(1) show ?thesis by simp
qed

subsection \<open>Order creation\<close>

lemma createRazorpayOrder_frame:
  "bookings (snd (createRazorpayOrder e w u f)) = bookings w
   \<and> cars (snd (createRazorpayOrder e w u f)) = cars w"
  unfolding createRazorpayOrder_def Let_def
  by (simp split: option.splits)

lemma createRazorpayOrder_error_unchanged:
  "validateOrderForm e f \<noteq> [] \<Longrightarrow> \<exists>err. createRazorpayOrder e w u f = (Inl err, w)"
  unfolding createRazorpayOrder_def Let_def by simp

text \<open>Claim C6. When the car exists and the computed total is at most 0, order creation
  answers with an error (status 400 once validation has passed) and requests no order
  from the provider. When validation has passed and the total is positive, exactly one
  order is requested, for the total times 100. No run of the route changes the bookings
  or the cars.\<close>

theorem createOrder_amount:
  assumes found: "cars w (carId f) = Some c"
      and calc: "calculateBookingDetails e c (formStartDate f) (formEndDate f)
                   (formStartTime f) (formEndTime f) (formBookingType f) = Some (d, a)"
  shows "(a \<le> 0 \<longrightarrow> (\<exists>err. createRazorpayOrder e w u f = (Inl err, w)))
       \<and> (a \<le> 0 \<and> validateOrderForm e f = []
            \<longrightarrow> createRazorpayOrder e w u f
                  = (Inl (Error 400 ''Calculated total amount is zero or negative.''), w))
       \<and> (0 < a \<and> validateOrderForm e f = []
            \<longrightarrow> (\<exists>reply. createRazorpayOrder e w u f
                    = (reply,
                       w\<lparr>paymentOrders := paymentOrders w
                           @ [\<lparr> amount = Some (a * 100), currency = ''INR'',
                                receipt = ''receipt_order_'' @ showNat (dateNow e),
                                payment_capture = 1 \<rparr>]\<rparr>)))
       \<and> bookings (snd (createRazorpayOrder e w u f)) = bookings w
       \<and> cars (snd (createRazorpayOrder e w u f)) = cars w"
proof -
  have rejected: "createRazorpayOrder e w u f
                    = (Inl (Error 400 ''Calculated total amount is zero or negative.''), w)"
    if "a \<le> 0" "validateOrderForm e f = []"
    using that found calc by (simp add: createRazorpayOrder_def Let_def notPositive_def)
  have any: "\<exists>err. createRazorpayOrder e w u f = (Inl err, w)" if "a \<le> 0"
  proof (cases "validateOrderForm e f = []")
    case True
    with that rejected show ?thesis by blast
  next
    case False
    then show ?thesis by (rule createRazorpayOrder_error_unchanged)
  qed
  have requested: "\<exists>reply. createRazorpayOrder e w u f
                    = (reply,
                       w\<lparr>paymentOrders := paymentOrders w
                           @ [\<lparr> amount = Some (a * 100), currency = ''INR'',
                                receipt = ''receipt_order_'' @ showNat (dateNow e),
                                payment_capture = 1 \<rparr>]\<rparr>)"
    if "0 < a" "validateOrderForm e f = []"
    using that found calc
    by (simp add: createRazorpayOrder_def Let_def notPositive_def split: option.splits)
  from rejected any requested createRazorpayOrder_frame [of e w u f] show ?thesis
    by blast
qed

lemma sample_valid: "validateOrderForm sampleEnv sampleForm = []"
  by (simp add: validateOrderForm_def check_def matchesTime_def isDigitChar_def nonBlank_def
        isWhitespace_def date_defs sample_defs)



lemma backwards_valid: "validateOrderForm sampleEnv backwardsForm = []"
  by (simp add: validateOrderForm_def check_def matchesTime_def isDigitChar_def nonBlank_def
        isWhitespace_def date_defs sample_defs backwardsForm_def)

lemma sample_calc:
  "calculateBookingDetails sampleEnv sampleCar (formStartDate sampleForm) (formEndDate sampleForm)
     (formStartTime sampleForm) (formEndTime sampleForm) (formBookingType sampleForm)
   = Some (3, 4500)"
  "calculateBookingDetails sampleEnv sampleCar (formStartDate backwardsForm)
     (formEndDate backwardsForm) (formStartTime backwardsForm) (formEndTime backwardsForm)
     (formBookingType backwardsForm)
   = Some (- 1, - 100)"
  by (simp_all add: calculateBookingDetails_def date_defs sample_defs backwardsForm_def)

theorem createOrder_amount_witness:
  "cars sampleWorld (carId sampleForm) = Some sampleCar
   \<and> calculateBookingDetails sampleEnv sampleCar (formStartDate sampleForm)
       (formEndDate sampleForm) (formStartTime sampleForm) (formEndTime sampleForm)
       (formBookingType sampleForm) = Some (3, 4500)
   \<and> validateOrderForm sampleEnv sampleForm = []
   \<and> createRazorpayOrder sampleEnv sampleWorld sampleUser sampleForm
       = (Inr \<lparr> replyOrderId = ''order_1'', replyCurrency = ''INR'',
                replyAmount = Some 450000, replyKeyId = ''rzp_test'',
                replyCarTitle = ''Swift'', replyUserName = ''Asha'',
                replyUserEmail = ''asha@example.org'', replyUserPhone = ''5550100'' \<rparr>,
          sampleWorld\<lparr>paymentOrders :=
            [\<lparr> amount = Some 450000, currency = ''INR'',
               receipt = ''receipt_order_1700000000000'', payment_capture = 1 \<rparr>]\<rparr>)
   \<and> cars sampleWorld (carId backwardsForm) = Some sampleCar
   \<and> calculateBookingDetails sampleEnv sampleCar (formStartDate backwardsForm)
       (formEndDate backwardsForm) (formStartTime backwardsForm) (formEndTime backwardsForm)
       (formBookingType backwardsForm) = Some (- 1, - 100)
   \<and> validateOrderForm sampleEnv backwardsForm = []
   \<and> createRazorpayOrder sampleEnv sampleWorld sampleUser backwardsForm
       = (Inl (Error 400 ''Calculated total amount is zero or negative.''), sampleWorld)"
proof -
  have c1: "cars sampleWorld (carId sampleForm) = Some sampleCar"
    and c2: "cars sampleWorld (carId backwardsForm) = Some sampleCar"
    by (simp_all add: sample_defs backwardsForm_def)
  have ok: "\<exists>reply. createRazorpayOrder sampleEnv sampleWorld sampleUser sampleForm
       = (reply,
          sampleWorld\<lparr>paymentOrders := paymentOrders sampleWorld
            @ [\<lparr> amount = Some (4500 * 100), currency = ''INR'',
                 receipt = ''receipt_order_'' @ showNat (dateNow sampleEnv),
                 payment_capture = 1 \<rparr>]\<rparr>)"
    using createOrder_amount [OF c1 sample_calc(1), of sampleUser] sample_valid by simp
  then have ok': "createRazorpayOrder sampleEnv sampleWorld sampleUser sampleForm
       = (Inr \<lparr> replyOrderId = ''order_1'', replyCurrency = ''INR'',
                replyAmount = Some 450000, replyKeyId = ''rzp_test'',
                replyCarTitle = ''Swift'', replyUserName = ''Asha'',
                replyUserEmail = ''asha@example.org'', replyUserPhone = ''5550100'' \<rparr>,
          sampleWorld\<lparr>paymentOrders :=
            [\<lparr> amount = Some 450000, currency = ''INR'',
               receipt = ''receipt_order_1700000000000'', payment_capture = 1 \<rparr>]\<rparr>)"
    using c1 sample_valid sample_calc(1)
    by (simp add: createRazorpayOrder_def Let_def notPositive_def)
       (simp add: sample_defs showNat.simps digitChar_def)
  have no: "createRazorpayOrder sampleEnv sampleWorld sampleUser backwardsForm
       = (Inl (Error 400 ''Calculated total amount is zero or negative.''), sampleWorld)"
    using createOrder_amount [OF c2 sample_calc(2), of sampleUser] backwards_valid by simp
  show ?thesis
    using c1 c2 sample_calc sample_valid backwards_valid ok' no by simp
qed

subsection \<open>Cancellation\<close>

lemma findById_docId: "findById bs i = Some b \<Longrightarrow> docId b = i \<and> b \<in> set bs"
  unfolding findById_def by (auto simp add: find_Some_iff)

lemma findById_replace:
  "findById bs i = Some b \<Longrightarrow> docId b' = i
   \<Longrightarrow> findById (map (\<lambda>x. if docId x = i then b' else x) bs) i = Some b'"
  unfolding findById_def by (induction bs) (auto split: if_splits)

lemma preSaveBookingId_fields:
  "docId (preSaveBookingId e b) = docId b"
  "status (preSaveBookingId e b) = status b"
  "startDate (preSaveBookingId e b) = startDate b"
  "endDate (preSaveBookingId e b) = endDate b"
  "user (preSaveBookingId e b) = user b"
  by (simp_all add: preSaveBookingId_def)

text \<open>When \<^verbatim>\<open>save()\<close> of a loaded document is accepted, and what it writes.\<close>

lemma save_loaded_iff:
  "(\<exists>r. save e False bs b = Inr r)
     \<longleftrightarrow> schemaValid e b \<and> startDate b < endDate b
          \<and> (hasBookingId b \<or> \<not> list_ex (\<lambda>x. bookingId x = Some (generateBookingId e)) bs)"
proof -
  have "generateBookingId e \<noteq> []" by (simp add: generateBookingId_def)
  then have "\<not> hasBookingId b \<Longrightarrow> bookingId b \<noteq> Some (generateBookingId e)"
    by (auto simp add: hasBookingId_def)
  then show ?thesis
    by (auto simp add: save_def preSaveBookingId_def preSaveDateRange_def)
qed

lemma save_loaded_result:
  "save e False bs b = Inr r
   \<Longrightarrow> r = (preSaveBookingId e b,
            map (\<lambda>x. if docId x = docId b then preSaveBookingId e b else x) bs)"
  by (auto simp add: save_def preSaveBookingId_def preSaveDateRange_def split: if_splits)

lemma cancelBooking_refused:
  assumes found: "findById (bookings w) i = Some b"
      and no: "\<not> (user b = userId u \<and> int (dateNow e) < startDate b \<and> status b \<noteq> Cancelled)"
  shows "\<exists>code msg. (code = 400 \<or> code = 403) \<and> cancelBooking e w u i = (Inl (Error code msg), w)"
  using found no by (auto simp add: cancelBooking_def)

lemma cancelBooking_save_refused:
  assumes found: "findById (bookings w) i = Some b"
      and yes: "user b = userId u \<and> int (dateNow e) < startDate b \<and> status b \<noteq> Cancelled"
      and no: "\<not> (\<exists>r. save e False (bookings w) (b\<lparr>status := Cancelled\<rparr>) = Inr r)"
  shows "cancelBooking e w u i = (Inl (Error 500 ''Server error while cancelling booking''), w)"
proof (cases "save e False (bookings w) (b\<lparr>status := Cancelled\<rparr>)")
  case (Inl err)
  with found yes show ?thesis by (simp add: cancelBooking_def)
next
  case (Inr r)
  with no show ?thesis by simp
qed

lemma cancelBooking_saved:
  assumes found: "findById (bookings w) i = Some b"
      and yes: "user b = userId u \<and> int (dateNow e) < startDate b \<and> status b \<noteq> Cancelled"
      and ok: "save e False (bookings w) (b\<lparr>status := Cancelled\<rparr>) = Inr r"
  shows "cancelBooking e w u i
           = (Inr (preSaveBookingId e (b\<lparr>status := Cancelled\<rparr>)),
              w\<lparr>bookings := map (\<lambda>x. if docId x = i
                                      then preSaveBookingId e (b\<lparr>status := Cancelled\<rparr>) else x)
                               (bookings w)\<rparr>)"
proof -
  have i: "docId b = i" using findById_docId [OF found] by simp
  from save_loaded_result [OF ok] i
  have "save e False (bookings w) (b\<lparr>status := Cancelled\<rparr>)
          = Inr (preSaveBookingId e (b\<lparr>status := Cancelled\<rparr>),
                 map (\<lambda>x. if docId x = i then preSaveBookingId e (b\<lparr>status := Cancelled\<rparr>) else x)
                   (bookings w))"
    using ok by simp
  with found yes show ?thesis by (simp add: cancelBooking_def)
qed

text \<open>Claim C7, corrected. For a stored booking, cancellation by an identity succeeds
  exactly when the booking belongs to the identity, the current time is strictly before
  its \<open>startDate\<close>, its status is not yet cancelled, and \<^verbatim>\<open>save()\<close> accepts the write: the
  booking with the new status passes the schema's validators, its \<open>startDate\<close> is strictly
  before its \<open>endDate\<close>, and it has a booking id (or the one generated for it is not yet in
  the collection). On success the stored booking has status cancelled and every further
  attempt fails with status 400 or 403, whoever asks and whenever. When one of the first
  three conditions fails, the answer is an error of status 400 or 403; when only the write
  is refused, it is the server error of status 500; in both cases the collection is
  unchanged. In particular a booking whose \<open>startDate\<close> is not in the future cannot be
  cancelled.\<close>

theorem cancel_iff:
  assumes found: "findById (bookings w) i = Some b"
  shows "((\<exists>b'. fst (cancelBooking e w u i) = Inr b')
            \<longleftrightarrow> (user b = userId u \<and> int (dateNow e) < startDate b \<and> status b \<noteq> Cancelled)
                 \<and> schemaValid e (b\<lparr>status := Cancelled\<rparr>) \<and> startDate b < endDate b
                 \<and> (hasBookingId b
                    \<or> \<not> list_ex (\<lambda>x. bookingId x = Some (generateBookingId e)) (bookings w)))
       \<and> ((\<exists>b'. fst (cancelBooking e w u i) = Inr b')
            \<longrightarrow> (\<exists>b'. cancelBooking e w u i
                         = (Inr b', w\<lparr>bookings := map (\<lambda>x. if docId x = i then b' else x)
                                                    (bookings w)\<rparr>)
                      \<and> b' = preSaveBookingId e (b\<lparr>status := Cancelled\<rparr>)
                      \<and> status b' = Cancelled
                      \<and> findById (bookings (snd (cancelBooking e w u i))) i = Some b'
                      \<and> (\<exists>code msg. (code = 400 \<or> code = 403)
                            \<and> cancelBooking e' (snd (cancelBooking e w u i)) u' i
                                = (Inl (Error code msg), snd (cancelBooking e w u i)))))
       \<and> (\<not> (user b = userId u \<and> int (dateNow e) < startDate b \<and> status b \<noteq> Cancelled)
            \<longrightarrow> (\<exists>code msg. (code = 400 \<or> code = 403)
                    \<and> cancelBooking e w u i = (Inl (Error code msg), w)))
       \<and> ((user b = userId u \<and> int (dateNow e) < startDate b \<and> status b \<noteq> Cancelled)
            \<and> \<not> (schemaValid e (b\<lparr>status := Cancelled\<rparr>) \<and> startDate b < endDate b
                   \<and> (hasBookingId b
                      \<or> \<not> list_ex (\<lambda>x. bookingId x = Some (generateBookingId e)) (bookings w)))
            \<longrightarrow> cancelBooking e w u i
                  = (Inl (Error 500 ''Server error while cancelling booking''), w))"
proof -
  let ?cond = "user b = userId u \<and> int (dateNow e) < startDate b \<and> status b \<noteq> Cancelled"
  let ?c = "b\<lparr>status := Cancelled\<rparr>"
  let ?acc = "schemaValid e ?c \<and> startDate b < endDate b
                \<and> (hasBookingId b
                   \<or> \<not> list_ex (\<lambda>x. bookingId x = Some (generateBookingId e)) (bookings w))"
  let ?b' = "preSaveBookingId e ?c"
  let ?w' = "w\<lparr>bookings := map (\<lambda>x. if docId x = i then ?b' else x) (bookings w)\<rparr>"
  have acc: "(\<exists>r. save e False (bookings w) ?c = Inr r) \<longleftrightarrow> ?acc"
    using save_loaded_iff [of e "bookings w" ?c] by (simp add: hasBookingId_def)
  have i: "docId b = i" using findById_docId [OF found] by simp
  consider (refused) "\<not> ?cond" | (broken) "?cond" "\<not> ?acc" | (saved) "?cond" "?acc" by blast
  then show ?thesis
  proof cases
    case refused
    from cancelBooking_refused [OF found refused]
    obtain code msg where "cancelBooking e w u i = (Inl (Error code msg), w)"
      and "code = 400 \<or> code = 403" by blast
    with refused show ?thesis by auto
  next
    case broken
    have "cancelBooking e w u i = (Inl (Error 500 ''Server error while cancelling booking''), w)"
      using cancelBooking_save_refused [OF found broken(1)] broken(2) acc by blast
    with broken show ?thesis by simp
  next
    case saved
    from saved(2) acc obtain r where r: "save e False (bookings w) ?c = Inr r" by blast
    have res: "cancelBooking e w u i = (Inr ?b', ?w')"
      by (rule cancelBooking_saved [OF found saved(1) r])
    have st: "status ?b' = Cancelled" by (simp add: preSaveBookingId_fields)
    have stored: "findById (bookings ?w') i = Some ?b'"
      using findById_replace [OF found, of ?b'] i by (simp add: preSaveBookingId_fields)
    have again: "\<exists>code msg. (code = 400 \<or> code = 403)
                   \<and> cancelBooking e' ?w' u' i = (Inl (Error code msg), ?w')"
      by (rule cancelBooking_refused [OF stored]) (simp add: st)
    have two: "\<exists>b'. cancelBooking e w u i
                         = (Inr b', w\<lparr>bookings := map (\<lambda>x. if docId x = i then b' else x)
                                                    (bookings w)\<rparr>)
                      \<and> b' = preSaveBookingId e (b\<lparr>status := Cancelled\<rparr>)
                      \<and> status b' = Cancelled
                      \<and> findById (bookings (snd (cancelBooking e w u i))) i = Some b'
                      \<and> (\<exists>code msg. (code = 400 \<or> code = 403)
                            \<and> cancelBooking e' (snd (cancelBooking e w u i)) u' i
                                = (Inl (Error code msg), snd (cancelBooking e w u i)))"
      apply (rule exI [of _ ?b'])
      apply (simp only: res snd_conv)
      apply (intro conjI)
          apply (rule refl)
         apply (rule refl)
        apply (rule st)
       apply (rule stored)
      apply (rule again)
      done
    have one: "\<exists>b'. fst (cancelBooking e w u i) = Inr b'" by (simp add: res)
    from saved one two show ?thesis by blast
  qed
qed

lemmas cancel_defs =
  cancelBooking_def findById_def save_def preSaveBookingId_def preSaveDateRange_def
  hasBookingId_def bookingSchemaValid_def

theorem cancel_write_refused_counterexample:
  "findById (bookings badWorld) 7 = Some badBooking
   \<and> user badBooking = userId sampleUser
   \<and> int (dateNow sampleEnv) < startDate badBooking
   \<and> status badBooking = Confirmed
   \<and> cancelBooking sampleEnv badWorld sampleUser 7
       = (Inl (Error 500 ''Server error while cancelling booking''), badWorld)"
  by (simp add: cancel_defs sample_defs badWorld_def badBooking_def)

lemma sample_cancel:
  "cancelBooking sampleEnv sampleWorld sampleUser 7
     = (Inr (sampleBooking\<lparr>status := Cancelled\<rparr>),
        sampleWorld\<lparr>bookings := [sampleBooking\<lparr>status := Cancelled\<rparr>]\<rparr>)"
  "cancelBooking sampleEnv (sampleWorld\<lparr>bookings := [sampleBooking\<lparr>status := Cancelled\<rparr>]\<rparr>)
       sampleUser 7
     = (Inl (Error 400 ''Booking is already cancelled''),
        sampleWorld\<lparr>bookings := [sampleBooking\<lparr>status := Cancelled\<rparr>]\<rparr>)"
  "cancelBooking (sampleEnv\<lparr>dateNow := 1705000000000\<rparr>) sampleWorld sampleUser 7
     = (Inl (Error 400 ''Cannot cancel booking that has already started''), sampleWorld)"
  "cancelBooking sampleEnv sampleWorld (sampleUser\<lparr>userId := 6\<rparr>) 7
     = (Inl (Error 403 ''Access denied''), sampleWorld)"
  by (simp_all add: cancel_defs sample_defs)

theorem cancel_iff_witness:
  "findById (bookings sampleWorld) 7 = Some sampleBooking
   \<and> user sampleBooking = userId sampleUser
   \<and> int (dateNow sampleEnv) < startDate sampleBooking
   \<and> status sampleBooking \<noteq> Cancelled
   \<and> schemaValid sampleEnv (sampleBooking\<lparr>status := Cancelled\<rparr>)
   \<and> startDate sampleBooking < endDate sampleBooking
   \<and> hasBookingId sampleBooking
   \<and> fst (cancelBooking sampleEnv sampleWorld sampleUser 7)
       = Inr (sampleBooking\<lparr>status := Cancelled\<rparr>)
   \<and> cancelBooking sampleEnv sampleWorld sampleUser 7
       = (Inr (sampleBooking\<lparr>status := Cancelled\<rparr>),
          sampleWorld\<lparr>bookings := [sampleBooking\<lparr>status := Cancelled\<rparr>]\<rparr>)
   \<and> cancelBooking sampleEnv (sampleWorld\<lparr>bookings := [sampleBooking\<lparr>status := Cancelled\<rparr>]\<rparr>)
         sampleUser 7
       = (Inl (Error 400 ''Booking is already cancelled''),
          sampleWorld\<lparr>bookings := [sampleBooking\<lparr>status := Cancelled\<rparr>]\<rparr>)
   \<and> startDate sampleBooking \<le> int (dateNow (sampleEnv\<lparr>dateNow := 1705000000000\<rparr>))
   \<and> cancelBooking (sampleEnv\<lparr>dateNow := 1705000000000\<rparr>) sampleWorld sampleUser 7
       = (Inl (Error 400 ''Cannot cancel booking that has already started''), sampleWorld)
   \<and> user sampleBooking \<noteq> userId (sampleUser\<lparr>userId := 6\<rparr>)
   \<and> cancelBooking sampleEnv sampleWorld (sampleUser\<lparr>userId := 6\<rparr>) 7
       = (Inl (Error 403 ''Access denied''), sampleWorld)"
proof -
  have found: "findById (bookings sampleWorld) 7 = Some sampleBooking"
    by (simp add: findById_def sample_defs)
  have own: "user sampleBooking = userId sampleUser"
    and early: "int (dateNow sampleEnv) < startDate sampleBooking"
    and live: "status sampleBooking \<noteq> Cancelled"
    and valid: "schemaValid sampleEnv (sampleBooking\<lparr>status := Cancelled\<rparr>)"
    and ordered: "startDate sampleBooking < endDate sampleBooking"
    and hasId: "hasBookingId sampleBooking"
    and late: "startDate sampleBooking \<le> int (dateNow (sampleEnv\<lparr>dateNow := 1705000000000\<rparr>))"
    and other: "user sampleBooking \<noteq> userId (sampleUser\<lparr>userId := 6\<rparr>)"
    by (simp_all add: hasBookingId_def bookingSchemaValid_def sample_defs)
  from cancel_iff [OF found, of sampleEnv sampleUser, THEN conjunct1]
    own early live valid ordered hasId
  have "\<exists>b'. fst (cancelBooking sampleEnv sampleWorld sampleUser 7) = Inr b'"
    by blast
  then have first: "fst (cancelBooking sampleEnv sampleWorld sampleUser 7)
                      = Inr (sampleBooking\<lparr>status := Cancelled\<rparr>)"
    by (simp add: sample_cancel(1))
  show ?thesis
    by (intro conjI)
       (rule found own early live valid ordered hasId first late other sample_cancel)+
qed

subsection \<open>Writes and the two invariants\<close>

lemma hasBookingId_preSave: "hasBookingId (preSaveBookingId e b)"
  by (simp add: preSaveBookingId_def hasBookingId_def generateBookingId_def)

lemma save_hooks:
  assumes "save e n bs b = Inr (b', bs')"
  shows "b' = preSaveBookingId e b \<and> startDate b' < endDate b' \<and> hasBookingId b'
         \<and> schemaValid e b
         \<and> (n \<longrightarrow> bs' = bs @ [b'] \<and> \<not> list_ex (\<lambda>x. bookingId x = bookingId b') bs)
         \<and> (\<not> n \<longrightarrow> bs' = map (\<lambda>x. if docId x = docId b' then b' else x) bs)"
  using assms hasBookingId_preSave [of e b]
  by (auto simp add: save_def preSaveDateRange_def split: if_splits)

lemma save_rejects_unordered:
  "endDate b \<le> startDate b
   \<Longrightarrow> save e n bs b
         = Inl (if schemaValid e b then HookError ''End date must be after start date''
                else ValidationFailed)"
  by (simp add: save_def preSaveDateRange_def preSaveBookingId_def)

lemma preSaveBookingId_keeps: "hasBookingId b \<Longrightarrow> preSaveBookingId e b = b"
  by (simp add: preSaveBookingId_def)

lemma preSaveBookingId_dates:
  "startDate (preSaveBookingId e b) = startDate b \<and> endDate (preSaveBookingId e b) = endDate b
   \<and> docId (preSaveBookingId e b) = docId b"
  by (simp add: preSaveBookingId_def)

lemma datesOrdered_save:
  assumes "save e n bs b = Inr (b', bs')" and "datesOrdered bs"
  shows "datesOrdered bs'"
proof -
  note h = save_hooks [OF assms(1)]
  from h have b': "startDate b' < endDate b'" by blast
  from h have new: "bs' = bs @ [b']" if n using that by blast
  from h have old: "bs' = map (\<lambda>x. if docId x = docId b' then b' else x) bs" if "\<not> n"
    using that by blast
  show ?thesis
  proof (cases n)
    case True
    with new b' assms(2) show ?thesis by (simp add: datesOrdered_def)
  next
    case False
    with old b' assms(2) show ?thesis by (auto simp add: datesOrdered_def list_all_iff)
  qed
qed

lemma datesOrdered_verifyPayment:
  "datesOrdered (bookings w) \<Longrightarrow> datesOrdered (bookings (snd (verifyPayment e w u r)))"
  using verifyPayment_cases [of e w u r] by (auto dest: datesOrdered_save)

lemma cancelBooking_cases:
  "(\<exists>err. cancelBooking e w u i = (Inl err, w))
   \<or> (\<exists>b b' bs'. findById (bookings w) i = Some b
         \<and> save e False (bookings w) (b\<lparr>status := Cancelled\<rparr>) = Inr (b', bs')
         \<and> cancelBooking e w u i = (Inr b', w\<lparr>bookings := bs'\<rparr>))"
  unfolding cancelBooking_def
  by (auto split: option.splits sum.splits prod.splits)

lemma datesOrdered_cancelBooking:
  "datesOrdered (bookings w) \<Longrightarrow> datesOrdered (bookings (snd (cancelBooking e w u i)))"
  using cancelBooking_cases [of e w u i] by (auto dest: datesOrdered_save)

lemma updateBookingStatus_bookings:
  "bookings (snd (updateBookingStatus w i st)) = bookings w
   \<or> bookings (snd (updateBookingStatus w i st))
       = map (\<lambda>x. if docId x = i then x\<lparr>status := st\<rparr> else x) (bookings w)"
  unfolding updateBookingStatus_def findByIdAndUpdateStatus_def
  by (simp split: option.splits)

lemma updateBookingStatus_fields:
  "map startDate (bookings (snd (updateBookingStatus w i st))) = map startDate (bookings w)
   \<and> map endDate (bookings (snd (updateBookingStatus w i st))) = map endDate (bookings w)
   \<and> map bookingId (bookings (snd (updateBookingStatus w i st))) = map bookingId (bookings w)
   \<and> map docId (bookings (snd (updateBookingStatus w i st))) = map docId (bookings w)"
  using updateBookingStatus_bookings [of w i st] by (auto simp add: comp_def)

lemma datesOrdered_updateBookingStatus:
  "datesOrdered (bookings w) \<Longrightarrow> datesOrdered (bookings (snd (updateBookingStatus w i st)))"
  using updateBookingStatus_bookings [of w i st]
  by (auto simp add: datesOrdered_def list_all_iff)

text \<open>Claim C8, corrected. The check of the date range runs at every \<open>save\<close> of a
  booking, the first one and the later ones alike: a booking that does not start strictly
  before it ends is refused (by the hook, unless the schema's validators refuse it
  first). The status change of the administration routes writes without that check, but
  it changes neither \<open>startDate\<close> nor \<open>endDate\<close>. So every route keeps the invariant that
  all stored bookings start strictly before they end.\<close>

theorem dates_validated_on_save:
  "(endDate b \<le> startDate b
      \<longrightarrow> save e n bs b
            = Inl (if schemaValid e b then HookError ''End date must be after start date''
                   else ValidationFailed))
   \<and> (datesOrdered (bookings w)
      \<longrightarrow> datesOrdered (bookings (snd (verifyPayment e w u r)))
        \<and> datesOrdered (bookings (snd (cancelBooking e w u i)))
        \<and> datesOrdered (bookings (snd (updateBookingStatus w i st)))
        \<and> datesOrdered (bookings (snd (createRazorpayOrder e w u f))))
   \<and> map startDate (bookings (snd (updateBookingStatus w i st))) = map startDate (bookings w)
   \<and> map endDate (bookings (snd (updateBookingStatus w i st))) = map endDate (bookings w)"
  using save_rejects_unordered [of b e n bs] datesOrdered_verifyPayment [of w e u r]
    datesOrdered_cancelBooking [of w e u i] datesOrdered_updateBookingStatus [of w i st]
    createRazorpayOrder_frame [of e w u f] updateBookingStatus_fields [of w i st]
  by simp

theorem admin_write_skips_validation_counterexample:
  "updateBookingStatus badWorld 7 Completed
     = (Inr (badBooking\<lparr>status := Completed\<rparr>),
        badWorld\<lparr>bookings := [badBooking\<lparr>status := Completed\<rparr>]\<rparr>)
   \<and> endDate (badBooking\<lparr>status := Completed\<rparr>) \<le> startDate (badBooking\<lparr>status := Completed\<rparr>)"
  by (simp add: updateBookingStatus_def findByIdAndUpdateStatus_def findById_def sample_defs
        badWorld_def badBooking_def)

lemma sample_unordered:
  "endDate badBooking \<le> startDate badBooking"
  "schemaValid sampleEnv badBooking"
  "save sampleEnv False [badBooking] (badBooking\<lparr>status := Cancelled\<rparr>)
     = Inl (HookError ''End date must be after start date'')"
  by (simp_all add: save_def preSaveBookingId_def preSaveDateRange_def hasBookingId_def
        bookingSchemaValid_def sample_defs badBooking_def)

lemma sample_datesOrdered: "datesOrdered (bookings sampleWorld)"
  by (simp add: datesOrdered_def sample_defs)

lemma sample_writes:
  "bookings (snd (cancelBooking sampleEnv sampleWorld sampleUser 7))
     = [sampleBooking\<lparr>status := Cancelled\<rparr>]"
  "bookings (snd (updateBookingStatus sampleWorld 7 Completed))
     = [sampleBooking\<lparr>status := Completed\<rparr>]"
  by (simp_all add: cancelBooking_def updateBookingStatus_def findByIdAndUpdateStatus_def
        findById_def save_def preSaveBookingId_def preSaveDateRange_def hasBookingId_def
        bookingSchemaValid_def sample_defs)

theorem dates_validated_on_save_witness:
  "endDate badBooking \<le> startDate badBooking
   \<and> schemaValid sampleEnv badBooking
   \<and> save sampleEnv False [badBooking] badBooking
       = Inl (HookError ''End date must be after start date'')
   \<and> datesOrdered (bookings sampleWorld)
   \<and> bookings (snd (cancelBooking sampleEnv sampleWorld sampleUser 7))
       = [sampleBooking\<lparr>status := Cancelled\<rparr>]
   \<and> datesOrdered [sampleBooking\<lparr>status := Cancelled\<rparr>]
   \<and> bookings (snd (updateBookingStatus sampleWorld 7 Completed))
       = [sampleBooking\<lparr>status := Completed\<rparr>]
   \<and> datesOrdered [sampleBooking\<lparr>status := Completed\<rparr>]"
proof -
  note t = dates_validated_on_save [of badBooking sampleEnv False "[badBooking]" sampleWorld
      sampleUser "sampleRequest sampleForm" 7 Completed sampleForm]
  from t sample_unordered(1,2)
  have rejected: "save sampleEnv False [badBooking] badBooking
                    = Inl (HookError ''End date must be after start date'')"
    by simp
  from t sample_datesOrdered
  have "datesOrdered (bookings (snd (cancelBooking sampleEnv sampleWorld sampleUser 7)))
        \<and> datesOrdered (bookings (snd (updateBookingStatus sampleWorld 7 Completed)))"
    by blast
  then have kept: "datesOrdered [sampleBooking\<lparr>status := Cancelled\<rparr>]"
    and kept': "datesOrdered [sampleBooking\<lparr>status := Completed\<rparr>]"
    unfolding sample_writes by simp_all
  show ?thesis
    by (intro conjI)
       (rule sample_unordered(1,2) rejected sample_datesOrdered sample_writes kept kept')+
qed

subsection \<open>Booking identifiers\<close>

lemma newBooking_fields:
  "newBooking e w u r f d = Some b
   \<Longrightarrow> bookingId b = None \<and> docId b = freshId (bookings w)
       \<and> status b = Confirmed \<and> paymentStatus b = Paid"
  by (auto simp add: newBooking_def split: option.splits prod.splits)

text \<open>The generator of the first hook gives every document that reaches it an id, and keeps
  the id of a document that has one.\<close>

lemma preSaveBookingId_assigns:
  "bookingId (preSaveBookingId e b)
     = (if hasBookingId b then bookingId b else Some (''CG'' @ showNat (dateNow e) @ randomSuffix e))"
  by (simp add: preSaveBookingId_def generateBookingId_def)

text \<open>The document of a new booking has no id, and the validators run before the hooks. So
  under a schema that requires the id, as the Booking schema does, the route never stores a
  booking, whatever the request.\<close>

lemma save_new_document_refused:
  assumes required: "\<And>b. schemaValid e b \<Longrightarrow> hasBookingId b"
      and new: "newBooking e w u r f d = Some b"
  shows "save e True bs b = Inl ValidationFailed"
proof -
  from newBooking_fields [OF new] have "\<not> hasBookingId b" by (simp add: hasBookingId_def)
  with required have "\<not> schemaValid e b" by blast
  then show ?thesis by (simp add: save_def)
qed

lemma verifyPayment_never_creates:
  assumes required: "\<And>b. schemaValid e b \<Longrightarrow> hasBookingId b"
  shows "\<exists>err. verifyPayment e w u r = (Inl err, w)"
proof -
  consider (fail) err where "verifyPayment e w u r = (Inl err, w)"
    | (ok) f d b b' where "newBooking e w u r f d = Some b"
        "save e True (bookings w) b = Inr (b', bookings w @ [b'])"
    using verifyPayment_cases [of e w u r] by blast
  then show ?thesis
  proof cases
    case fail
    then show ?thesis by blast
  next
    case ok
    from save_new_document_refused [OF required ok(1), of "bookings w"] ok(2)
    show ?thesis by simp
  qed
qed

lemma bookingSchemaValid_required: "bookingSchemaValid b \<Longrightarrow> hasBookingId b"
  by (simp add: bookingSchemaValid_def)

text \<open>Claim C9, which the code does not meet. The claim: every booking gets its
  \<open>bookingId\<close> once, at its first save, from the generator (\<^verbatim>\<open>'CG'\<close>, the time stamp and the
  first five characters of a random string, in upper case), and is never left without one.
  The code: the schema requires \<open>bookingId\<close>, and \<^verbatim>\<open>save()\<close> runs the validators of the
  schema before the \<^verbatim>\<open>pre('save')\<close> hooks, so the document of a new booking, which has no
  id yet, is refused before the generator runs. For the paid request of \<open>sampleForm\<close> (the
  car exists, is available and has no overlapping booking) the hook would give the id
  \<^verbatim>\<open>CG1700000000000K3J9X\<close>, but the save is refused, and the route answers status 500 and
  stores nothing.\<close>

theorem bookingId_required_before_generated:
  "newBooking sampleEnv sampleWorld sampleUser (sampleRequest sampleForm) sampleForm
       (calculateBookingDetails sampleEnv sampleCar ''2024-01-01'' ''2024-01-03'' ''10:00'' ''18:00''
          ''daily'')
     = Some sampleDocument
   \<and> bookingId sampleDocument = None
   \<and> bookingId (preSaveBookingId sampleEnv sampleDocument) = Some ''CG1700000000000K3J9X''
   \<and> save sampleEnv True (bookings sampleWorld) sampleDocument = Inl ValidationFailed
   \<and> verifyPayment sampleEnv sampleWorld sampleUser (sampleRequest sampleForm)
       = (Inl (Error 500 ''Server error during payment verification or booking creation''),
          sampleWorld)"
proof -
  have built: "newBooking sampleEnv sampleWorld sampleUser (sampleRequest sampleForm) sampleForm
       (calculateBookingDetails sampleEnv sampleCar ''2024-01-01'' ''2024-01-03'' ''10:00'' ''18:00''
          ''daily'')
     = Some sampleDocument"
    by (simp add: newBooking_def calculateBookingDetails_def freshId_def date_defs sample_defs
          sampleDocument_def)
  have none: "bookingId sampleDocument = None" by (simp add: sampleDocument_def)
  have hook: "bookingId (preSaveBookingId sampleEnv sampleDocument)
                = Some ''CG1700000000000K3J9X''"
    by (simp add: preSaveBookingId_def hasBookingId_def generateBookingId_def randomSuffix_def
          toUpperCase_def showNat.simps digitChar_def sampleEnv_def sampleDocument_def)
  have refused: "save sampleEnv True (bookings sampleWorld) sampleDocument = Inl ValidationFailed"
    by (simp add: save_def bookingSchemaValid_def hasBookingId_def sampleEnv_def
          sampleDocument_def)
  have answer: "verifyPayment sampleEnv sampleWorld sampleUser (sampleRequest sampleForm)
       = (Inl (Error 500 ''Server error during payment verification or booking creation''),
          sampleWorld)"
    using sample_verify_refused by (simp add: verifyServerError_def)
  show ?thesis
    by (intro conjI) (rule built none hook refused answer)+
qed

text \<open>The same for every request to a server with the Booking schema.\<close>

lemma sample_never_creates:
  "\<exists>err. verifyPayment sampleEnv w u r = (Inl err, w)"
  by (rule verifyPayment_never_creates) (simp add: sampleEnv_def bookingSchemaValid_required)

subsection \<open>The interval of the re-check\<close>

lemma newBooking_dates:
  assumes "newBooking e w u r f d \<noteq> None"
  shows "map_option startDate (newBooking e w u r f d) = newDate e (formStartDate f)"
    and "map_option endDate (newBooking e w u r f d) = newDate e (formEndDate f)"
  using assms by (auto simp add: newBooking_def split: option.splits prod.splits)

text \<open>After a matching signature, with the car found and available, the answer of the route
  is the conflict exactly when an active booking of the car overlaps the interval of the
  re-check.\<close>

lemma verifyPayment_conflict_iff:
  assumes sig: "createHmac e ''sha256'' (keySecret e)
                  (razorpay_order_id r @ ''|'' @ razorpay_payment_id r) ''hex''
                  = razorpay_signature r"
      and form: "bookingDetails r = Some f"
      and found: "cars w (carId f) = Some c"
      and avail: "isAvailable c"
      and iv: "recheckInterval e f = (Some s, Some t)"
  shows "verifyPayment e w u r
           = (Inl (Error 400 ''Car is no longer available for the selected dates/times.''), w)
         \<longleftrightarrow> (\<exists>bk \<in> set (bookings w). car bk = carId f
                 \<and> (status bk = Confirmed \<or> status bk = Pending)
                 \<and> startDate bk \<le> t \<and> endDate bk \<ge> s)"
proof (cases "find (overlapFilter (carId f) s t) (bookings w)")
  case None
  then have no: "\<not> (\<exists>bk \<in> set (bookings w). car bk = carId f
                 \<and> (status bk = Confirmed \<or> status bk = Pending)
                 \<and> startDate bk \<le> t \<and> endDate bk \<ge> s)"
    using find_overlap_None [of "carId f" s t "bookings w"] by blast
  from sig form found avail iv None
  have "verifyPayment e w u r
          \<noteq> (Inl (Error 400 ''Car is no longer available for the selected dates/times.''), w)"
    by (auto simp add: verifyPayment_def Let_def verifyServerError_def
          split: option.splits sum.splits prod.splits)
  with no show ?thesis by blast
next
  case (Some bk)
  then have yes: "\<exists>bk \<in> set (bookings w). car bk = carId f
                 \<and> (status bk = Confirmed \<or> status bk = Pending)
                 \<and> startDate bk \<le> t \<and> endDate bk \<ge> s"
    by (auto simp add: find_Some_iff overlapFilter_def)
  from sig form found avail iv Some
  have "verifyPayment e w u r
          = (Inl (Error 400 ''Car is no longer available for the selected dates/times.''), w)"
    by (simp add: verifyPayment_def Let_def)
  with yes show ?thesis by blast
qed

lemma sample_times:
  "parseTimeOfDay ''10:00'' = Some (10 * msPerHour)"
  "parseTimeOfDay ''18:00'' = Some (18 * msPerHour)"
  by (simp_all add: date_defs)

lemma sample_recheck:
  "recheckInterval sampleEnv sampleForm
     = (Some (19723 * msPerDay + 10 * msPerHour), Some (19725 * msPerDay + 18 * msPerHour))"
  "setHours sampleEnv (19723 * msPerDay) 0 0 0 0 = 19723 * msPerDay"
  "setHours sampleEnv (19725 * msPerDay) 23 59 59 999 = 19725 * msPerDay + (msPerDay - 1)"
  by (simp_all add: recheckInterval_def date_defs sample_defs)

text \<open>Claim C10, corrected. The re-check of \<open>verifyPayment\<close> takes its interval from
  \<open>startDate @ ''T'' @ startTime\<close> and \<open>endDate @ ''T'' @ endTime\<close>, whatever the booking type:
  after a matching signature, with the car found and available, the route answers the
  conflict exactly when an active booking of the car overlaps that interval. For date-only
  dates and times of day the interval is the pair of those local times, while the document
  of the new booking gets the dates alone (midnight UTC). So for a daily booking the
  interval is in general neither the one of the pricing (00:00:00.000 of the first day to
  23:59:59.999 of the last) nor the pair of dates on the document: for 10:00 to 18:00 on a
  server in UTC it differs from both. It is equal to the pair of dates on the document
  exactly when each time of day equals the offset of the server's zone from UTC at that
  local time (00:00 on a server in UTC), and it is the interval of the pricing for some
  times, such as 00:00 and 23:59:59.999 on a server in UTC.\<close>

theorem recheck_interval:
  "recheckInterval e (f\<lparr>formBookingType := bt\<rparr>) = recheckInterval e f
   \<and> (parseDateOnly (formStartDate f) = Some a \<and> parseDateOnly (formEndDate f) = Some b
      \<and> parseTimeOfDay (formStartTime f) = Some x \<and> parseTimeOfDay (formEndTime f) = Some y
      \<longrightarrow> recheckInterval e f
            = (Some (utcTime e (a * msPerDay + x)), Some (utcTime e (b * msPerDay + y)))
        \<and> (newDate e (formStartDate f), newDate e (formEndDate f))
            = (Some (a * msPerDay), Some (b * msPerDay))
        \<and> (recheckInterval e f = (newDate e (formStartDate f), newDate e (formEndDate f))
             \<longleftrightarrow> x = localTZA e (a * msPerDay + x) False
                  \<and> y = localTZA e (b * msPerDay + y) False))
   \<and> (createHmac e ''sha256'' (keySecret e)
          (razorpay_order_id r @ ''|'' @ razorpay_payment_id r) ''hex'' = razorpay_signature r
      \<and> bookingDetails r = Some f \<and> cars w (carId f) = Some c \<and> isAvailable c
      \<and> recheckInterval e f = (Some s, Some t)
      \<longrightarrow> (verifyPayment e w u r
              = (Inl (Error 400 ''Car is no longer available for the selected dates/times.''), w)
            \<longleftrightarrow> (\<exists>bk \<in> set (bookings w). car bk = carId f
                    \<and> (status bk = Confirmed \<or> status bk = Pending)
                    \<and> startDate bk \<le> t \<and> endDate bk \<ge> s)))
   \<and> (newBooking e w u r f d \<noteq> None
      \<longrightarrow> map_option startDate (newBooking e w u r f d) = newDate e (formStartDate f)
        \<and> map_option endDate (newBooking e w u r f d) = newDate e (formEndDate f))
   \<and> formBookingType sampleForm = ''daily''
   \<and> recheckInterval sampleEnv sampleForm
       \<noteq> (Some (setHours sampleEnv (19723 * msPerDay) 0 0 0 0),
          Some (setHours sampleEnv (19725 * msPerDay) 23 59 59 999))
   \<and> recheckInterval sampleEnv sampleForm
       \<noteq> (newDate sampleEnv (formStartDate sampleForm), newDate sampleEnv (formEndDate sampleForm))"
proof (intro conjI impI)
  show "recheckInterval e (f\<lparr>formBookingType := bt\<rparr>) = recheckInterval e f"
    by (simp add: recheckInterval_def)
next
  assume "parseDateOnly (formStartDate f) = Some a \<and> parseDateOnly (formEndDate f) = Some b
      \<and> parseTimeOfDay (formStartTime f) = Some x \<and> parseTimeOfDay (formEndTime f) = Some y"
  then have h: "parseDateOnly (formStartDate f) = Some a" "parseDateOnly (formEndDate f) = Some b"
    "parseTimeOfDay (formStartTime f) = Some x" "parseTimeOfDay (formEndTime f) = Some y"
    by simp_all
  show iv: "recheckInterval e f
              = (Some (utcTime e (a * msPerDay + x)), Some (utcTime e (b * msPerDay + y)))"
    using newDate_combined [OF h(1) h(3), of e] newDate_combined [OF h(2) h(4), of e]
    by (simp add: recheckInterval_def)
  show raw: "(newDate e (formStartDate f), newDate e (formEndDate f))
               = (Some (a * msPerDay), Some (b * msPerDay))"
    using h(1,2) by (simp add: newDate_dateOnly)
  show "recheckInterval e f = (newDate e (formStartDate f), newDate e (formEndDate f))
          \<longleftrightarrow> x = localTZA e (a * msPerDay + x) False \<and> y = localTZA e (b * msPerDay + y) False"
    unfolding iv raw by (auto simp add: utcTime_def)
next
  assume "createHmac e ''sha256'' (keySecret e)
          (razorpay_order_id r @ ''|'' @ razorpay_payment_id r) ''hex'' = razorpay_signature r
      \<and> bookingDetails r = Some f \<and> cars w (carId f) = Some c \<and> isAvailable c
      \<and> recheckInterval e f = (Some s, Some t)"
  then have h: "createHmac e ''sha256'' (keySecret e)
          (razorpay_order_id r @ ''|'' @ razorpay_payment_id r) ''hex'' = razorpay_signature r"
    "bookingDetails r = Some f" "cars w (carId f) = Some c" "isAvailable c"
    "recheckInterval e f = (Some s, Some t)"
    by simp_all
  show "verifyPayment e w u r
              = (Inl (Error 400 ''Car is no longer available for the selected dates/times.''), w)
            \<longleftrightarrow> (\<exists>bk \<in> set (bookings w). car bk = carId f
                    \<and> (status bk = Confirmed \<or> status bk = Pending)
                    \<and> startDate bk \<le> t \<and> endDate bk \<ge> s)"
    by (rule verifyPayment_conflict_iff [OF h])
next
  assume new: "newBooking e w u r f d \<noteq> None"
  show "map_option startDate (newBooking e w u r f d) = newDate e (formStartDate f)"
    by (rule newBooking_dates(1) [OF new])
  show "map_option endDate (newBooking e w u r f d) = newDate e (formEndDate f)"
    by (rule newBooking_dates(2) [OF new])
next
  show "formBookingType sampleForm = ''daily''" by (simp add: sampleForm_def)
next
  show "recheckInterval sampleEnv sampleForm
       \<noteq> (Some (setHours sampleEnv (19723 * msPerDay) 0 0 0 0),
          Some (setHours sampleEnv (19725 * msPerDay) 23 59 59 999))"
    unfolding sample_recheck by simp
next
  have "newDate sampleEnv (formStartDate sampleForm) = Some (19723 * msPerDay)"
    using sample_dates(1) by (simp add: sampleForm_def)
  then show "recheckInterval sampleEnv sampleForm
       \<noteq> (newDate sampleEnv (formStartDate sampleForm), newDate sampleEnv (formEndDate sampleForm))"
    unfolding sample_recheck by simp
qed

theorem recheck_coincides_counterexample:
  "formBookingType midnightForm = ''daily''
   \<and> recheckInterval sampleEnv midnightForm = (Some (19723 * msPerDay), Some (19725 * msPerDay))
   \<and> map_option startDate
       (newBooking sampleEnv sampleWorld sampleUser (sampleRequest midnightForm) midnightForm
          (calculateBookingDetails sampleEnv sampleCar ''2024-01-01'' ''2024-01-03'' ''00:00''
             ''00:00'' ''daily''))
       = Some (19723 * msPerDay)
   \<and> map_option endDate
       (newBooking sampleEnv sampleWorld sampleUser (sampleRequest midnightForm) midnightForm
          (calculateBookingDetails sampleEnv sampleCar ''2024-01-01'' ''2024-01-03'' ''00:00''
             ''00:00'' ''daily''))
       = Some (19725 * msPerDay)
   \<and> formBookingType fullDayForm = ''daily''
   \<and> recheckInterval sampleEnv fullDayForm
       = (Some (setHours sampleEnv (19723 * msPerDay) 0 0 0 0),
          Some (setHours sampleEnv (19725 * msPerDay) 23 59 59 999))"
  by (simp add: recheckInterval_def newBooking_def calculateBookingDetails_def date_defs
        sample_defs midnightForm_def fullDayForm_def)

theorem recheck_interval_witness:
  "parseDateOnly (formStartDate sampleForm) = Some 19723
   \<and> parseDateOnly (formEndDate sampleForm) = Some 19725
   \<and> parseTimeOfDay (formStartTime sampleForm) = Some (10 * msPerHour)
   \<and> parseTimeOfDay (formEndTime sampleForm) = Some (18 * msPerHour)
   \<and> recheckInterval sampleEnv sampleForm
       = (Some (utcTime sampleEnv (19723 * msPerDay + 10 * msPerHour)),
          Some (utcTime sampleEnv (19725 * msPerDay + 18 * msPerHour)))
   \<and> createHmac sampleEnv ''sha256'' (keySecret sampleEnv)
         (razorpay_order_id (sampleRequest conflictForm) @ ''|''
            @ razorpay_payment_id (sampleRequest conflictForm)) ''hex''
       = razorpay_signature (sampleRequest conflictForm)
   \<and> bookingDetails (sampleRequest conflictForm) = Some conflictForm
   \<and> cars sampleWorld (carId conflictForm) = Some sampleCar
   \<and> isAvailable sampleCar
   \<and> recheckInterval sampleEnv conflictForm
       = (Some (19733 * msPerDay + 10 * msPerHour), Some (19735 * msPerDay + 18 * msPerHour))
   \<and> sampleBooking \<in> set (bookings sampleWorld)
   \<and> car sampleBooking = carId conflictForm
   \<and> status sampleBooking = Confirmed
   \<and> startDate sampleBooking \<le> 19735 * msPerDay + 18 * msPerHour
   \<and> endDate sampleBooking \<ge> 19733 * msPerDay + 10 * msPerHour
   \<and> verifyPayment sampleEnv sampleWorld sampleUser (sampleRequest conflictForm)
       = (Inl (Error 400 ''Car is no longer available for the selected dates/times.''),
          sampleWorld)
   \<and> newBooking sampleEnv sampleWorld sampleUser (sampleRequest sampleForm) sampleForm
         (Some (3, 4500)) \<noteq> None
   \<and> map_option startDate
         (newBooking sampleEnv sampleWorld sampleUser (sampleRequest sampleForm) sampleForm
            (Some (3, 4500)))
       = newDate sampleEnv (formStartDate sampleForm)
   \<and> map_option endDate
         (newBooking sampleEnv sampleWorld sampleUser (sampleRequest sampleForm) sampleForm
            (Some (3, 4500)))
       = newDate sampleEnv (formEndDate sampleForm)"
proof -
  have p: "parseDateOnly (formStartDate sampleForm) = Some 19723"
    "parseDateOnly (formEndDate sampleForm) = Some 19725"
    "parseTimeOfDay (formStartTime sampleForm) = Some (10 * msPerHour)"
    "parseTimeOfDay (formEndTime sampleForm) = Some (18 * msPerHour)"
    using jan_2024 sample_times by (simp_all add: sampleForm_def)
  have q: "createHmac sampleEnv ''sha256'' (keySecret sampleEnv)
         (razorpay_order_id (sampleRequest conflictForm) @ ''|''
            @ razorpay_payment_id (sampleRequest conflictForm)) ''hex''
       = razorpay_signature (sampleRequest conflictForm)"
    "bookingDetails (sampleRequest conflictForm) = Some conflictForm"
    "cars sampleWorld (carId conflictForm) = Some sampleCar"
    "isAvailable sampleCar"
    by (simp_all add: sample_defs conflictForm_def)
  have o: "sampleBooking \<in> set (bookings sampleWorld)"
    "car sampleBooking = carId conflictForm"
    "status sampleBooking = Confirmed"
    "startDate sampleBooking \<le> 19735 * msPerDay + 18 * msPerHour"
    "endDate sampleBooking \<ge> 19733 * msPerDay + 10 * msPerHour"
    by (simp_all add: sample_defs conflictForm_def)
  have n: "newBooking sampleEnv sampleWorld sampleUser (sampleRequest sampleForm) sampleForm
             (Some (3, 4500)) \<noteq> None"
    by (simp add: newBooking_def date_defs sample_defs)
  from recheck_interval [where e = sampleEnv and f = sampleForm and a = 19723 and b = 19725
      and x = "10 * msPerHour" and y = "18 * msPerHour"] p
  have a: "recheckInterval sampleEnv sampleForm
       = (Some (utcTime sampleEnv (19723 * msPerDay + 10 * msPerHour)),
          Some (utcTime sampleEnv (19725 * msPerDay + 18 * msPerHour)))"
    by blast
  from recheck_interval [where e = sampleEnv and f = conflictForm
      and r = "sampleRequest conflictForm" and w = sampleWorld and c = sampleCar
      and s = "19733 * msPerDay + 10 * msPerHour" and t = "19735 * msPerDay + 18 * msPerHour"
      and u = sampleUser]
    q conflict_recheck o
  have c: "verifyPayment sampleEnv sampleWorld sampleUser (sampleRequest conflictForm)
       = (Inl (Error 400 ''Car is no longer available for the selected dates/times.''),
          sampleWorld)"
    by blast
  from recheck_interval [where e = sampleEnv and f = sampleForm
      and r = "sampleRequest sampleForm" and w = sampleWorld and u = sampleUser
      and d = "Some (3, 4500)"] n
  have d: "map_option startDate
         (newBooking sampleEnv sampleWorld sampleUser (sampleRequest sampleForm) sampleForm
            (Some (3, 4500)))
       = newDate sampleEnv (formStartDate sampleForm)"
    "map_option endDate
         (newBooking sampleEnv sampleWorld sampleUser (sampleRequest sampleForm) sampleForm
            (Some (3, 4500)))
       = newDate sampleEnv (formEndDate sampleForm)"
    by blast+
  show ?thesis
    by (intro conjI) (rule p a q conflict_recheck o c n d)+
qed

end
